theory Spec2Isabelle
  imports Complex_Main "HOL-Library.Word"
begin

section \<open>Numbers, errors and the smoothing primitive\<close>

text \<open>
  The avatar drivers of this repository are per-frame callbacks (\<open>useFrame\<close>) that read
  an audio analyser and mutate a rig or a mesh. JavaScript numbers are modelled as
  \<^typ>\<open>real\<close>; a frame that would write \<open>NaN\<close> or an infinity into the rig leaves this
  model and is reported as the value \<open>Inl NonFinite\<close>. A property read on \<open>undefined\<close> or
  \<open>null\<close> throws in JavaScript; that is the value \<open>Inl TypeError\<close>.
\<close>

datatype error = TypeError | NonFinite

definition andThen :: "error + 'a \<Rightarrow> ('a \<Rightarrow> error + 'b) \<Rightarrow> error + 'b" where
  "andThen r f = (case r of Inl e \<Rightarrow> Inl e | Inr v \<Rightarrow> f v)"

text \<open>
  Modelled from the spec: \<open>THREE.MathUtils.lerp\<close> is a function of the three.js library,
  which is not under src/. The spec gives its contract:
  \<open>lerp(current, target, factor) -> current + (target-current)*factor\<close>.
\<close>

definition lerp :: "real \<Rightarrow> real \<Rightarrow> real \<Rightarrow> real" where
  "lerp current target factor = current + (target - current) * factor"

primrec lerpTicks :: "nat \<Rightarrow> real \<Rightarrow> real \<Rightarrow> real \<Rightarrow> real" where
  "lerpTicks 0 current target factor = current"
| "lerpTicks (Suc n) current target factor = lerp (lerpTicks n current target factor) target factor"


section \<open>The audio state and the conversational state (App)\<close>

text \<open>
  \<open>AnalyserNode\<close>: the Web Audio analyser, an external capability. Its \<open>fftSize\<close> is a
  field; \<open>spectrum\<close> stands for the magnitude it currently reports for each bin.
  \<open>new Uint8Array(analyser.frequencyBinCount)\<close> followed by
  \<open>analyser.getByteFrequencyData(dataArray)\<close> yields one byte per bin.
\<close>

record AnalyserNode =
  fftSize :: nat
  spectrum :: "nat \<Rightarrow> 8 word"

definition frequencyBinCount :: "AnalyserNode \<Rightarrow> nat" where
  "frequencyBinCount a = fftSize a div 2"

definition getByteFrequencyData :: "AnalyserNode \<Rightarrow> 8 word list" where
  "getByteFrequencyData a = map (spectrum a) [0..<frequencyBinCount a]"

text \<open>\<open>initAudioContext\<close> creates the only analyser of the program, with \<open>fftSize = 256\<close>.\<close>

definition initAudioContext :: "(nat \<Rightarrow> 8 word) \<Rightarrow> AnalyserNode" where
  "initAudioContext s = \<lparr>fftSize = 256, spectrum = s\<rparr>"

text \<open>
  \<open>AudioState\<close>: the fields the drivers read (\<open>audioContext\<close> and \<open>source\<close> are never read
  by them).
\<close>

record AudioState =
  isPlaying :: bool
  analyser :: "AnalyserNode option"

datatype AvatarState = idle | typing | thinking | speaking

definition getAvatarState :: "AudioState \<Rightarrow> bool \<Rightarrow> bool \<Rightarrow> AvatarState" where
  "getAvatarState audioState isProcessing isUserTyping =
     (if isPlaying audioState then speaking
      else if isProcessing then thinking
      else if isUserTyping then typing
      else idle)"


section \<open>Voice energy: the loop over the frequency bins\<close>

text \<open>
  \<open>dataArray[i]\<close> on a \<open>Uint8Array\<close>: the byte as a number, or \<open>undefined\<close> beyond the
  array. \<open>sum += undefined\<close> makes the sum \<open>NaN\<close>, which is \<open>None\<close> here and stays so.
\<close>

definition readBin :: "8 word list \<Rightarrow> nat \<Rightarrow> real option" where
  "readBin dataArray i =
     (if i < length dataArray then Some (real (unat (dataArray ! i))) else None)"

fun addNum :: "real option \<Rightarrow> real option \<Rightarrow> real option" where
  "addNum (Some a) (Some b) = Some (a + b)"
| "addNum _ _ = None"

text \<open>\<open>for (let i = startBin; i < endBin; i++) sum += dataArray[i];\<close>\<close>

function sumBins :: "8 word list \<Rightarrow> nat \<Rightarrow> nat \<Rightarrow> real option \<Rightarrow> real option" where
  "sumBins dataArray i endBin acc =
     (if i < endBin then sumBins dataArray (i + 1) endBin (addNum acc (readBin dataArray i))
      else acc)"
  by pat_completeness auto
termination
  by (relation "measure (\<lambda>(d, i, e, s). e - i)") auto

declare sumBins.simps [simp del]

text \<open>VRMAvatar: bins 2 to 30, \<open>Math.min(1.0, Math.max(0, (average / 255) * 3.5))\<close>.\<close>

definition VRM_volume :: "8 word list \<Rightarrow> real option" where
  "VRM_volume dataArray =
     (let startBin = 2; endBin = 30 in
      case sumBins dataArray startBin endBin (Some 0) of
        None \<Rightarrow> None
      | Some s \<Rightarrow>
          (let average = s / real (endBin - startBin)
           in Some (min 1.0 (max 0 ((average / 255) * 3.5)))))"

text \<open>DefaultAvatar: bins 2 to 30, \<open>Math.min(1, average / 100)\<close>.\<close>

definition Default_volume :: "8 word list \<Rightarrow> real option" where
  "Default_volume dataArray =
     (let startBin = 2; endBin = 30 in
      case sumBins dataArray startBin endBin (Some 0) of
        None \<Rightarrow> None
      | Some s \<Rightarrow>
          (let average = s / real (endBin - startBin)
           in Some (min 1 (average / 100))))"

text \<open>
  MMDModel: bins 2 to 50, \<open>sensitivity = 2.0\<close>,
  \<open>Math.min(1, Math.max(0, (average / 100) * sensitivity))\<close>.
\<close>

definition MMD_value :: "8 word list \<Rightarrow> real option" where
  "MMD_value dataArray =
     (let startBin = 2; endBin = 50 in
      case sumBins dataArray startBin endBin (Some 0) of
        None \<Rightarrow> None
      | Some s \<Rightarrow>
          (let average = s / real (endBin - startBin);
               sensitivity = 2.0
           in Some (min 1 (max 0 ((average / 100) * sensitivity)))))"

text \<open>
  The spec's formula for the voice energy, in its own words:
  \<open>clamp((average(samples[startBin:endBin]) / scaleDivisor) * sensitivity, 0, 1)\<close>.
\<close>

definition clamp :: "real \<Rightarrow> real \<Rightarrow> real \<Rightarrow> real" where
  "clamp v lo hi = (if v < lo then lo else if hi < v then hi else v)"

definition average :: "real list \<Rightarrow> real" where
  "average xs = sum_list xs / real (length xs)"

definition samples :: "8 word list \<Rightarrow> nat \<Rightarrow> nat \<Rightarrow> real list" where
  "samples dataArray startBin endBin =
     map (\<lambda>w. real (unat w)) (take (endBin - startBin) (drop startBin dataArray))"

definition spec_voiceEnergy :: "8 word list \<Rightarrow> nat \<Rightarrow> nat \<Rightarrow> real \<Rightarrow> real \<Rightarrow> real" where
  "spec_voiceEnergy dataArray startBin endBin scaleDivisor sensitivity =
     clamp ((average (samples dataArray startBin endBin) / scaleDivisor) * sensitivity) 0 1"


section \<open>The humanoid rig driver (VRMAvatar)\<close>

datatype VRMHumanBoneName =
  Head | Neck | Spine | Hips
  | LeftUpperArm | LeftLowerArm | LeftHand
  | RightUpperArm | RightLowerArm | RightHand

text \<open>A bone node, reduced to what the driver touches: \<open>node.rotation\<close>.\<close>

record Euler =
  rotation_x :: real
  rotation_y :: real
  rotation_z :: real

type_synonym VRMHumanoid = "VRMHumanBoneName \<Rightarrow> Euler option"

definition getRawBoneNode :: "VRMHumanoid \<Rightarrow> VRMHumanBoneName \<Rightarrow> Euler option" where
  "getRawBoneNode humanoid boneName = humanoid boneName"

text \<open>\<open>node.rotation\<close>: throws when \<open>node\<close> is \<open>null\<close> or \<open>undefined\<close>.\<close>

definition rotation :: "Euler option \<Rightarrow> error + Euler" where
  "rotation node = (case node of None \<Rightarrow> Inl TypeError | Some r \<Rightarrow> Inr r)"

text \<open>
  \<open>rotateBone\<close>, the helper inside \<open>useFrame\<close>. Every call of the source passes \<open>speed\<close>,
  so its default value 0.1 is never used.
\<close>

definition rotateBone ::
  "VRMHumanoid \<Rightarrow> VRMHumanBoneName \<Rightarrow> real \<Rightarrow> real \<Rightarrow> real \<Rightarrow> real \<Rightarrow> error + VRMHumanoid" where
  "rotateBone humanoid boneName x y z speed =
     (let node = getRawBoneNode humanoid boneName in
      if node \<noteq> None then
        andThen (rotation node) (\<lambda>r.
          Inr (humanoid(boneName \<mapsto>
            \<lparr>rotation_x = lerp (rotation_x r) x speed,
             rotation_y = lerp (rotation_y r) y speed,
             rotation_z = lerp (rotation_z r) z speed\<rparr>)))
      else Inr humanoid)"

text \<open>The same call repeated over \<open>n\<close> frames with one target.\<close>

primrec rotateBoneTicks ::
  "nat \<Rightarrow> VRMHumanoid \<Rightarrow> VRMHumanBoneName \<Rightarrow> real \<Rightarrow> real \<Rightarrow> real \<Rightarrow> real \<Rightarrow> error + VRMHumanoid" where
  "rotateBoneTicks 0 humanoid boneName x y z speed = Inr humanoid"
| "rotateBoneTicks (Suc n) humanoid boneName x y z speed =
     (case rotateBoneTicks n humanoid boneName x y z speed of
        Inl e \<Rightarrow> Inl e
      | Inr h \<Rightarrow> rotateBone h boneName x y z speed)"

text \<open>
  The calls \<open>rotateBone(bone, x, y, z, speed)\<close> of each branch of the pose controller, in
  the order of the source; \<open>t\<close> is \<open>state.clock.elapsedTime\<close>.
\<close>

type_synonym boneTarget = "VRMHumanBoneName \<times> real \<times> real \<times> real \<times> real"

definition poseTargets :: "AvatarState \<Rightarrow> real \<Rightarrow> boneTarget list" where
  "poseTargets avatarState t =
     (if avatarState = thinking then
        [(Head, 0.1, 0.3, - 0.1, 0.05),
         (Neck, 0, 0.1, 0, 0.05),
         (Spine, 0.05, 0, 0, 0.05),
         (LeftUpperArm, 0, 0, 0.9, 0.05),
         (LeftLowerArm, 0, 1.4, 0, 0.05),
         (LeftHand, 0, - 0.5, 0.5, 0.05),
         (RightUpperArm, - 0.5, - 0.6, - 0.8, 0.05),
         (RightLowerArm, 0, - 2.0, 0, 0.05),
         (RightHand, 0, 0, 0, 0.05)]
      else if avatarState = typing then
        [(Head, 0.3, 0, 0, 0.1),
         (Neck, 0.2, 0, 0, 0.1),
         (Spine, 0.2, 0, 0, 0.1),
         (LeftUpperArm, 0.2, 0.2, 1.2, 0.1),
         (LeftLowerArm, 0, 1.5, 0, 0.1),
         (RightUpperArm, 0.2, - 0.2, - 1.2, 0.1),
         (RightLowerArm, 0, - 1.5, 0, 0.1)]
      else if avatarState = speaking then
        (let headBob = sin (t * 12) * 0.08;
             headSway = cos (t * 3) * 0.1;
             armGesture = sin (t * 5) * 0.2
         in
          [(Head, headBob, headSway, 0, 0.1),
           (Neck, 0, headSway * 0.5, 0, 0.1),
           (Spine, 0.05, 0, 0, 0.05),
           (LeftUpperArm, 0, 0, 0.9, 0.05),
           (LeftLowerArm, 0, 1.4, 0, 0.05),
           (RightUpperArm, 0, 0, - 1.1 - armGesture, 0.05),
           (RightLowerArm, 0, - 0.8 - (armGesture * 0.5), 0, 0.05)])
      else
        (let breathTime = t * 2.0;
             breathe = sin breathTime * 0.04;
             driftTime = t * 0.5;
             drift = sin driftTime * 0.02
         in
          [(Head, 0, drift * 0.5, 0, 0.02),
           (Neck, 0, 0, 0, 0.02),
           (Spine, breathe, 0, drift, 0.02),
           (Hips, 0, 0, drift * 0.5, 0.02),
           (LeftUpperArm, 0, 0, 0.9, 0.05),
           (LeftLowerArm, 0, 1.4, 0, 0.05),
           (LeftHand, 0.2, - 0.2, 0.5, 0.05),
           (RightUpperArm, 0, 0, - 0.9, 0.05),
           (RightLowerArm, 0, - 1.4, 0, 0.05),
           (RightHand, 0.2, 0.2, - 0.5, 0.05)]))"

fun rotateBones :: "VRMHumanoid \<Rightarrow> boneTarget list \<Rightarrow> error + VRMHumanoid" where
  "rotateBones humanoid [] = Inr humanoid"
| "rotateBones humanoid ((boneName, x, y, z, speed) # rest) =
     (case rotateBone humanoid boneName x y z speed of
        Inl e \<Rightarrow> Inl e
      | Inr h \<Rightarrow> rotateBones h rest)"

text \<open>
  Modelled from the spec: the expression manager is an object of the three-vrm library,
  which is not under src/. The spec gives the rig's interface as
  \<open>setExpressionWeight(name, value)\<close> and \<open>getExpressionWeight(name) -> value\<close>: a store of
  one weight per expression name. A method call on a missing manager throws.
\<close>

type_synonym VRMExpressionManager = "string \<Rightarrow> real"

definition setValue ::
  "VRMExpressionManager option \<Rightarrow> string \<Rightarrow> real \<Rightarrow> error + VRMExpressionManager option" where
  "setValue em name weight =
     (case em of None \<Rightarrow> Inl TypeError | Some m \<Rightarrow> Inr (Some (m(name := weight))))"

definition getValue :: "VRMExpressionManager option \<Rightarrow> string \<Rightarrow> error + real" where
  "getValue em name = (case em of None \<Rightarrow> Inl TypeError | Some m \<Rightarrow> Inr (m name))"

record VRM =
  humanoid :: VRMHumanoid
  expressionManager :: "VRMExpressionManager option"

text \<open>
  Part 3 of \<open>useFrame\<close>, "Lip Sync (Mouth Movement)". \<open>random\<close> is the value
  \<open>Math.random()\<close> returns in this frame. \<open>blinkTrigger = Math.sin(t * 2)\<close> is computed by
  the source and never read.
\<close>

definition lipSync ::
  "AudioState \<Rightarrow> real \<Rightarrow> VRMExpressionManager option \<Rightarrow> error + VRMExpressionManager option" where
  "lipSync audioState random em =
     (if isPlaying audioState \<and> analyser audioState \<noteq> None then
        (case analyser audioState of
           None \<Rightarrow> Inr em
         | Some a \<Rightarrow>
            (case VRM_volume (getByteFrequencyData a) of
               None \<Rightarrow> (if em \<noteq> None then Inl NonFinite else Inr em)
             | Some volume \<Rightarrow>
                 if em \<noteq> None then
                   andThen (setValue em ''aa'' volume) (\<lambda>em1.
                     if volume > 0.6 then
                       andThen (getValue em1 ''blink'') (\<lambda>b.
                         setValue em1 ''blink'' (lerp b 0.5 0.2))
                     else Inr em1)
                 else Inr em))
      else
        if em \<noteq> None then
          andThen (getValue em ''aa'') (\<lambda>currentAa.
          andThen (setValue em ''aa'' (lerp currentAa 0 0.2)) (\<lambda>em1.
            let isBlinking = random > 0.992 in
            andThen (getValue em1 ''blink'') (\<lambda>currentBlink.
              if isBlinking then setValue em1 ''blink'' 1
              else setValue em1 ''blink'' (lerp currentBlink 0 0.2))))
        else Inr em)"

text \<open>
  The frame callback of \<open>VRMAvatar\<close>, after \<open>vrm.update(delta)\<close> (the library's own
  physics step, which is outside this model).
\<close>

definition useFrame_VRM ::
  "VRM option \<Rightarrow> AvatarState \<Rightarrow> AudioState \<Rightarrow> real \<Rightarrow> real \<Rightarrow> error + VRM option" where
  "useFrame_VRM vrm avatarState audioState t random =
     (case vrm of
        None \<Rightarrow> Inr None
      | Some v \<Rightarrow>
          andThen (rotateBones (humanoid v) (poseTargets avatarState t)) (\<lambda>h.
          andThen (lipSync audioState random (expressionManager v)) (\<lambda>em.
            Inr (Some \<lparr>humanoid = h, expressionManager = em\<rparr>))))"

text \<open>The inputs of one frame, and a run of consecutive frames.\<close>

record Frame =
  frame_avatarState :: AvatarState
  frame_audioState :: AudioState
  frame_elapsedTime :: real
  frame_random :: real

primrec runFrames_VRM :: "VRM option \<Rightarrow> Frame list \<Rightarrow> error + VRM option" where
  "runFrames_VRM vrm [] = Inr vrm"
| "runFrames_VRM vrm (f # fs) =
     (case useFrame_VRM vrm (frame_avatarState f) (frame_audioState f)
             (frame_elapsedTime f) (frame_random f) of
        Inl e \<Rightarrow> Inl e
      | Inr vrm' \<Rightarrow> runFrames_VRM vrm' fs)"


section \<open>The morph-target driver (MMDModel)\<close>

record SkinnedMesh =
  morphTargetInfluences :: "real list option"

text \<open>
  \<open>influences[morphIndex] = lerp(influences[morphIndex], target, factor)\<close>. Beyond the
  array the read is \<open>undefined\<close>, and the write extends the array with \<open>NaN\<close>.
\<close>

definition lerpInfluence :: "real list \<Rightarrow> nat \<Rightarrow> real \<Rightarrow> real \<Rightarrow> error + real list" where
  "lerpInfluence influences morphIndex target factor =
     (if morphIndex < length influences
      then Inr (influences[morphIndex := lerp (influences ! morphIndex) target factor])
      else Inl NonFinite)"

definition useFrame_MMD ::
  "SkinnedMesh option \<Rightarrow> nat option \<Rightarrow> AudioState \<Rightarrow> error + SkinnedMesh option" where
  "useFrame_MMD meshRef morphIndex audioState =
     (if meshRef = None \<or> morphIndex = None \<or> analyser audioState = None
          \<or> \<not> isPlaying audioState then
        (if meshRef \<noteq> None \<and> morphIndex \<noteq> None \<and> \<not> isPlaying audioState then
           (case (meshRef, morphIndex) of
              (Some mesh, Some i) \<Rightarrow>
                (case morphTargetInfluences mesh of
                   None \<Rightarrow> Inr meshRef
                 | Some influences \<Rightarrow>
                     andThen (lerpInfluence influences i 0 0.2) (\<lambda>influences'.
                       Inr (Some (mesh\<lparr>morphTargetInfluences := Some influences'\<rparr>))))
            | _ \<Rightarrow> Inr meshRef)
         else Inr meshRef)
      else
        (case (meshRef, morphIndex, analyser audioState) of
           (Some mesh, Some i, Some a) \<Rightarrow>
             (case MMD_value (getByteFrequencyData a) of
                None \<Rightarrow>
                  (case morphTargetInfluences mesh of
                     None \<Rightarrow> Inr meshRef
                   | Some influences \<Rightarrow> Inl NonFinite)
              | Some value \<Rightarrow>
                  (case morphTargetInfluences mesh of
                     None \<Rightarrow> Inr meshRef
                   | Some influences \<Rightarrow>
                       andThen (lerpInfluence influences i value 0.4) (\<lambda>influences'.
                         Inr (Some (mesh\<lparr>morphTargetInfluences := Some influences'\<rparr>)))))
         | _ \<Rightarrow> Inr meshRef))"

primrec runFrames_MMD ::
  "SkinnedMesh option \<Rightarrow> nat option \<Rightarrow> AudioState list \<Rightarrow> error + SkinnedMesh option" where
  "runFrames_MMD meshRef morphIndex [] = Inr meshRef"
| "runFrames_MMD meshRef morphIndex (a # as) =
     (case useFrame_MMD meshRef morphIndex a of
        Inl e \<Rightarrow> Inl e
      | Inr meshRef' \<Rightarrow> runFrames_MMD meshRef' morphIndex as)"


section \<open>The fallback shape driver (DefaultAvatar)\<close>

text \<open>
  Modelled from the spec: \<open>THREE.Color\<close> and its method \<open>lerp\<close> belong to three.js. The
  spec describes the cross-fade as "color-channel smoothing": each channel is advanced
  with the smoothing primitive. The constructor \<open>new THREE.Color(hex)\<close> is a parameter of
  the frame callback below.
\<close>

record Color =
  color_r :: real
  color_g :: real
  color_b :: real

definition color_lerp :: "Color \<Rightarrow> Color \<Rightarrow> real \<Rightarrow> Color" where
  "color_lerp c target alpha =
     \<lparr>color_r = lerp (color_r c) (color_r target) alpha,
      color_g = lerp (color_g c) (color_g target) alpha,
      color_b = lerp (color_b c) (color_b target) alpha\<rparr>"

record MeshStandardMaterial =
  color :: Color
  emissive :: Color

text \<open>The mesh, reduced to the fields the callback touches.\<close>

record Mesh =
  scale_x :: real
  scale_y :: real
  scale_z :: real
  position_y :: real
  mesh_rotation_y :: real

text \<open>
  \<open>targetScaleY\<close> and \<open>targetColor\<close> as the first part of the callback computes them;
  \<open>None\<close> when the volume is \<open>NaN\<close>.
\<close>

definition targets_Default :: "(string \<Rightarrow> Color) \<Rightarrow> AudioState \<Rightarrow> (real \<times> Color) option" where
  "targets_Default newColor audioState =
     (let targetScaleY = 1; targetColor = newColor ''#4f46e5'' in
      if isPlaying audioState \<and> analyser audioState \<noteq> None then
        (case analyser audioState of
           None \<Rightarrow> Some (targetScaleY, targetColor)
         | Some a \<Rightarrow>
            (case Default_volume (getByteFrequencyData a) of
               None \<Rightarrow> None
             | Some volume \<Rightarrow>
                 Some (1 + (volume * 0.5),
                       if volume > 0.2 then newColor ''#818cf8'' else targetColor)))
      else Some (targetScaleY, targetColor))"

text \<open>
  The scale update: \<open>scale.y\<close> is smoothed first, \<open>inverseScale\<close> is computed from the new
  \<open>scale.y\<close>, and \<open>scale.x\<close>, \<open>scale.z\<close> are smoothed toward it. \<open>1 / Math.sqrt(v)\<close> is
  an infinity for \<open>v = 0\<close> and \<open>NaN\<close> for \<open>v < 0\<close>.
\<close>

definition scaleUpdate :: "Mesh \<Rightarrow> real \<Rightarrow> error + Mesh" where
  "scaleUpdate mesh targetScaleY =
     (let mesh1 = mesh\<lparr>scale_y := lerp (scale_y mesh) targetScaleY 0.2\<rparr> in
      if 0 < scale_y mesh1 then
        (let inverseScale = 1 / sqrt (scale_y mesh1) in
         Inr (mesh1\<lparr>scale_x := lerp (scale_x mesh1) inverseScale 0.2,
                    scale_z := lerp (scale_z mesh1) inverseScale 0.2\<rparr>))
      else Inl NonFinite)"

definition useFrame_Default ::
  "(string \<Rightarrow> Color) \<Rightarrow> Mesh option \<Rightarrow> MeshStandardMaterial option \<Rightarrow> AudioState \<Rightarrow> real
   \<Rightarrow> error + (Mesh option \<times> MeshStandardMaterial option)" where
  "useFrame_Default newColor meshRef materialRef audioState elapsedTime =
     (case meshRef of
        None \<Rightarrow> Inr (meshRef, materialRef)
      | Some mesh \<Rightarrow>
         (case targets_Default newColor audioState of
            None \<Rightarrow> Inl NonFinite
          | Some (targetScaleY, targetColor) \<Rightarrow>
              andThen (scaleUpdate mesh targetScaleY) (\<lambda>mesh2.
                let materialRef' =
                      (case materialRef of
                         None \<Rightarrow> None
                       | Some m \<Rightarrow>
                           Some \<lparr>color = color_lerp (color m) targetColor 0.1,
                                 emissive = color_lerp (emissive m) targetColor 0.1\<rparr>);
                    mesh3 = mesh2\<lparr>position_y := sin (elapsedTime * 2) * 0.2 + 0.5,
                                  mesh_rotation_y := mesh_rotation_y mesh2 + 0.01\<rparr>
                in Inr (Some mesh3, materialRef'))))"


text \<open>
  A run of consecutive frames of the fallback driver; each frame brings its audio state
  and \<open>state.clock.elapsedTime\<close>.
\<close>

primrec runFrames_Default ::
  "(string \<Rightarrow> Color) \<Rightarrow> Mesh option \<Rightarrow> MeshStandardMaterial option \<Rightarrow> (AudioState \<times> real) list
   \<Rightarrow> error + (Mesh option \<times> MeshStandardMaterial option)" where
  "runFrames_Default newColor meshRef materialRef [] = Inr (meshRef, materialRef)"
| "runFrames_Default newColor meshRef materialRef (f # fs) =
     (case useFrame_Default newColor meshRef materialRef (fst f) (snd f) of
        Inl e \<Rightarrow> Inl e
      | Inr (meshRef', materialRef') \<Rightarrow> runFrames_Default newColor meshRef' materialRef' fs)"


section \<open>Lemmas on the bin loop\<close>

lemma sumBins_closed:
  "endBin \<le> length dataArray \<Longrightarrow>
   sumBins dataArray i endBin (Some s) =
     Some (s + (\<Sum>k = i..<endBin. real (unat (dataArray ! k))))"
proof (induction dataArray i endBin "Some s" arbitrary: s rule: sumBins.induct)
  case (1 dataArray i endBin)
  show ?case
  proof (cases "i < endBin")
    case True
    then have rd: "readBin dataArray i = Some (real (unat (dataArray ! i)))"
      using "1.prems" by (simp add: readBin_def)
    have "sumBins dataArray i endBin (Some s) =
          sumBins dataArray (i + 1) endBin (Some (s + real (unat (dataArray ! i))))"
      using True rd by (subst sumBins.simps) simp
    also have "\<dots> = Some (s + real (unat (dataArray ! i)) +
                       (\<Sum>k = i + 1..<endBin. real (unat (dataArray ! k))))"
      using "1.hyps"[OF True, of "s + real (unat (dataArray ! i))"] rd "1.prems" by simp
    finally show ?thesis
      using True by (simp add: sum.atLeast_Suc_lessThan add.assoc)
  next
    case False
    then show ?thesis by (subst sumBins.simps) simp
  qed
qed

lemma samples_sum:
  assumes "startBin \<le> endBin" "endBin \<le> length dataArray"
  shows "sum_list (samples dataArray startBin endBin) =
         (\<Sum>k = startBin..<endBin. real (unat (dataArray ! k)))"
proof -
  have m: "min (length dataArray - startBin) (endBin - startBin) = endBin - startBin"
    using assms by simp
  have "sum_list (samples dataArray startBin endBin) =
        (\<Sum>j = 0..<endBin - startBin.
            real (unat (take (endBin - startBin) (drop startBin dataArray) ! j)))"
    unfolding samples_def by (simp add: sum_list_sum_nth m atLeast0LessThan)
  also have "\<dots> = (\<Sum>j = 0..<endBin - startBin. real (unat (dataArray ! (startBin + j))))"
    using assms by (intro sum.cong) auto
  also have "\<dots> = (\<Sum>k = startBin..<endBin. real (unat (dataArray ! k)))"
    using assms sum.shift_bounds_nat_ivl[of "\<lambda>k. real (unat (dataArray ! k))" 0 startBin "endBin - startBin"]
    by (simp add: add.commute)
  finally show ?thesis .
qed

lemma length_samples:
  "startBin \<le> endBin \<Longrightarrow> endBin \<le> length dataArray \<Longrightarrow>
   length (samples dataArray startBin endBin) = endBin - startBin"
  by (simp add: samples_def)

lemma clamp_min_max: "clamp v 0 1 = min 1 (max 0 v)"
  by (simp add: clamp_def min_def max_def)

lemma length_getByteFrequencyData [simp]:
  "length (getByteFrequencyData a) = frequencyBinCount a"
  by (simp add: getByteFrequencyData_def)

lemma nth_getByteFrequencyData:
  "i < frequencyBinCount a \<Longrightarrow> getByteFrequencyData a ! i = spectrum a i"
  by (simp add: getByteFrequencyData_def)

lemma VRM_volume_spec:
  "30 \<le> length dataArray \<Longrightarrow>
   VRM_volume dataArray = Some (spec_voiceEnergy dataArray 2 30 255 3.5)"
  by (simp add: VRM_volume_def spec_voiceEnergy_def sumBins_closed average_def
      samples_sum length_samples clamp_min_max)

lemma initAudioContext_bins: "frequencyBinCount (initAudioContext s) = 128"
  by (simp add: initAudioContext_def frequencyBinCount_def)

lemma VRM_volume_all_200:
  assumes "30 \<le> length dataArray" "\<forall>k. 2 \<le> k \<and> k < 30 \<longrightarrow> dataArray ! k = 200"
  shows "VRM_volume dataArray = Some 1"
proof -
  have "(\<Sum>k = 2..<30. real (unat (dataArray ! k))) = (\<Sum>k = 2..<(30::nat). 200)"
    using assms(2) by (intro sum.cong) auto
  then show ?thesis
    using assms(1) by (simp add: VRM_volume_def sumBins_closed)
qed

section \<open>Lemmas on the smoothing primitive\<close>

lemma lerp_dist: "lerp c t f - t = (1 - f) * (c - t)"
  by (simp add: lerp_def algebra_simps)

lemma lerpTicks_dist: "lerpTicks n c t f - t = (1 - f) ^ n * (c - t)"
proof (induction n)
  case 0
  show ?case by simp
next
  case (Suc n)
  have "lerpTicks (Suc n) c t f - t = (1 - f) * (lerpTicks n c t f - t)"
    by (simp add: lerp_dist)
  with Suc show ?case by simp
qed

lemma lerp_abs_dist:
  assumes "f \<le> 1"
  shows "\<bar>lerp c t f - t\<bar> = (1 - f) * \<bar>c - t\<bar>"
  using assms by (simp add: lerp_dist abs_mult)

lemma lerpTicks_abs_dist:
  assumes "f \<le> 1"
  shows "\<bar>lerpTicks n c t f - t\<bar> = (1 - f) ^ n * \<bar>c - t\<bar>"
  using assms by (simp add: lerpTicks_dist abs_mult power_abs)

lemma lerpTicks_mono:
  assumes "0 < f" "f \<le> 1"
  shows "\<bar>lerpTicks (Suc k) c t f - t\<bar> \<le> \<bar>lerpTicks k c t f - t\<bar>"
proof -
  have "\<bar>lerpTicks (Suc k) c t f - t\<bar> = (1 - f) * \<bar>lerpTicks k c t f - t\<bar>"
    using assms by (simp add: lerp_abs_dist)
  also have "\<dots> \<le> 1 * \<bar>lerpTicks k c t f - t\<bar>"
    using assms by (intro mult_right_mono) auto
  finally show ?thesis by simp
qed

lemma lerpTicks_strict:
  assumes "0 < f" "f \<le> 1" "lerpTicks k c t f \<noteq> t"
  shows "\<bar>lerpTicks (Suc k) c t f - t\<bar> < \<bar>lerpTicks k c t f - t\<bar>"
proof -
  have pos: "0 < \<bar>lerpTicks k c t f - t\<bar>" using assms(3) by simp
  have "\<bar>lerpTicks (Suc k) c t f - t\<bar> = (1 - f) * \<bar>lerpTicks k c t f - t\<bar>"
    using assms by (simp add: lerp_abs_dist)
  also have "\<dots> < 1 * \<bar>lerpTicks k c t f - t\<bar>"
    using assms pos by (intro mult_strict_right_mono) auto
  finally show ?thesis by simp
qed

lemma lerpTicks_same_side:
  assumes "f \<le> 1"
  shows "0 \<le> (lerpTicks k c t f - t) * (c - t)"
proof -
  have "(lerpTicks k c t f - t) * (c - t) = (1 - f) ^ k * ((c - t) * (c - t))"
    unfolding lerpTicks_dist by (simp only: mult.assoc)
  moreover have "0 \<le> (1 - f) ^ k" using assms by simp
  moreover have "0 \<le> (c - t) * (c - t)" by simp
  ultimately show ?thesis by (simp only: mult_nonneg_nonneg)
qed

lemma lerpTicks_tendsto:
  assumes "0 < f" "f \<le> 1"
  shows "(\<lambda>k. \<bar>lerpTicks k c t f - t\<bar>) \<longlonglongrightarrow> 0"
proof -
  have "(\<lambda>k. (1 - f) ^ k) \<longlonglongrightarrow> 0"
    using assms by (intro LIMSEQ_realpow_zero) auto
  then have "(\<lambda>k. (1 - f) ^ k * \<bar>c - t\<bar>) \<longlonglongrightarrow> 0 * \<bar>c - t\<bar>"
    by (intro tendsto_mult tendsto_const)
  then show ?thesis
    using assms by (simp add: lerpTicks_abs_dist)
qed

lemma rotateBone_present:
  assumes "getRawBoneNode h b = Some r"
  shows "rotateBone h b x y z f =
         Inr (h(b \<mapsto> \<lparr>rotation_x = lerp (rotation_x r) x f,
                       rotation_y = lerp (rotation_y r) y f,
                       rotation_z = lerp (rotation_z r) z f\<rparr>))"
  using assms by (simp add: rotateBone_def rotation_def andThen_def)

lemma rotateBone_absent:
  assumes "getRawBoneNode h b = None"
  shows "rotateBone h b x y z f = Inr h"
  using assms by (simp add: rotateBone_def)

lemma rotateBoneTicks_present:
  assumes "getRawBoneNode h b = Some r"
  shows "rotateBoneTicks n h b x y z f =
         Inr (h(b \<mapsto> \<lparr>rotation_x = lerpTicks n (rotation_x r) x f,
                       rotation_y = lerpTicks n (rotation_y r) y f,
                       rotation_z = lerpTicks n (rotation_z r) z f\<rparr>))"
proof (induction n)
  case 0
  have "h(b \<mapsto> r) = h" using assms by (auto simp: getRawBoneNode_def)
  moreover have "\<lparr>rotation_x = rotation_x r, rotation_y = rotation_y r,
                  rotation_z = rotation_z r\<rparr> = r" by simp
  ultimately have "h(b \<mapsto> \<lparr>rotation_x = rotation_x r, rotation_y = rotation_y r,
                  rotation_z = rotation_z r\<rparr>) = h" by (simp only:)
  then show ?case by (simp del: fun_upd_apply)
next
  case (Suc n)
  let ?r = "\<lparr>rotation_x = lerpTicks n (rotation_x r) x f,
             rotation_y = lerpTicks n (rotation_y r) y f,
             rotation_z = lerpTicks n (rotation_z r) z f\<rparr>"
  have g: "getRawBoneNode (h(b \<mapsto> ?r)) b = Some ?r"
    by (simp add: getRawBoneNode_def)
  have "rotateBoneTicks (Suc n) h b x y z f = rotateBone (h(b \<mapsto> ?r)) b x y z f"
    by (simp only: rotateBoneTicks.simps Suc.IH sum.case)
  also have "\<dots> = Inr ((h(b \<mapsto> ?r))(b \<mapsto>
        \<lparr>rotation_x = lerp (rotation_x ?r) x f,
         rotation_y = lerp (rotation_y ?r) y f,
         rotation_z = lerp (rotation_z ?r) z f\<rparr>))"
    by (rule rotateBone_present [OF g])
  finally show ?case
    by (simp only: fun_upd_upd lerpTicks.simps Euler.select_convs)
qed

section \<open>Lemmas on the rig driver\<close>

lemma rotateBone_total: "\<exists>h'. rotateBone h b x y z f = Inr h' \<and> dom h' = dom h"
proof (cases "getRawBoneNode h b")
  case None
  then show ?thesis by (simp add: rotateBone_absent)
next
  case (Some r)
  then have "b \<in> dom h" by (auto simp: getRawBoneNode_def)
  then show ?thesis
    using rotateBone_present [OF Some, of x y z f] by (auto simp: insert_absorb)
qed

lemma rotateBones_total: "\<exists>h'. rotateBones h ts = Inr h' \<and> dom h' = dom h"
proof (induction ts arbitrary: h)
  case Nil
  show ?case by simp
next
  case (Cons tg ts)
  obtain b x y z f where tg: "tg = (b, x, y, z, f)" by (cases tg) auto
  obtain h1 where h1: "rotateBone h b x y z f = Inr h1" "dom h1 = dom h"
    using rotateBone_total by blast
  obtain h2 where h2: "rotateBones h1 ts = Inr h2" "dom h2 = dom h1"
    using Cons.IH by blast
  show ?case using tg h1 h2 by simp
qed

lemma lipSync_no_manager: "lipSync a rnd None = Inr None"
  by (simp add: lipSync_def split: option.splits)

lemma lipSync_silent:
  assumes "\<not> (isPlaying a \<and> analyser a \<noteq> None)"
  shows "lipSync a rnd (Some m) =
         Inr (Some (m(''aa'' := lerp (m ''aa'') 0 0.2,
                      ''blink'' := (if rnd > 0.992 then 1 else lerp (m ''blink'') 0 0.2))))"
proof -
  have c: "(isPlaying a \<and> analyser a \<noteq> None) = False" using assms by blast
  show ?thesis
    unfolding lipSync_def c by (simp add: getValue_def setValue_def andThen_def)
qed

lemma lipSync_playing:
  assumes "isPlaying a" "analyser a = Some an" "VRM_volume (getByteFrequencyData an) = Some volume"
  shows "lipSync a rnd (Some m) =
         Inr (Some (if volume > 0.6
                    then m(''aa'' := volume, ''blink'' := lerp (m ''blink'') 0.5 0.2)
                    else m(''aa'' := volume)))"
  using assms by (simp add: lipSync_def getValue_def setValue_def andThen_def)

lemma useFrame_VRM_result:
  assumes "lipSync a rnd (expressionManager v) = Inr em"
  shows "\<exists>h'. useFrame_VRM (Some v) st a t rnd =
                 Inr (Some \<lparr>humanoid = h', expressionManager = em\<rparr>) \<and>
              dom h' = dom (humanoid v)"
proof -
  obtain h' where h': "rotateBones (humanoid v) (poseTargets st t) = Inr h'"
      "dom h' = dom (humanoid v)"
    using rotateBones_total by blast
  then show ?thesis using assms by (simp add: useFrame_VRM_def andThen_def)
qed

lemma dom_absent: "dom h' = dom h \<Longrightarrow> getRawBoneNode h j = None \<Longrightarrow> getRawBoneNode h' j = None"
  unfolding getRawBoneNode_def by (metis domIff)

section \<open>Lemmas on runs of silent frames\<close>

lemma lerpTicks_shift: "lerpTicks n (lerp c t f) t f = lerp (lerpTicks n c t f) t f"
  by (induction n) simp_all

lemma decay_below_one_percent:
  assumes "0 \<le> c" "c \<le> 1" "21 \<le> n"
  shows "lerpTicks n c 0 0.2 < 0.01"
proof -
  have "lerpTicks n c 0 0.2 = (4/5) ^ n * c"
    using lerpTicks_dist [of n c 0 "0.2"] by simp
  also have "\<dots> \<le> (4/5) ^ n * 1"
    using assms by (intro mult_left_mono) auto
  also have "\<dots> \<le> (4/5) ^ 21"
    using assms(3) power_decreasing [of 21 n "4/5::real"] by simp
  also have "\<dots> < (0.01::real)" by (simp add: power_divide)
  finally show ?thesis .
qed

lemma useFrame_VRM_silent:
  assumes "\<not> (isPlaying a \<and> analyser a \<noteq> None)" "expressionManager v = Some m"
  shows "\<exists>h' m'. useFrame_VRM (Some v) st a t rnd =
                   Inr (Some \<lparr>humanoid = h', expressionManager = Some m'\<rparr>) \<and>
                 m' ''aa'' = lerp (m ''aa'') 0 0.2"
proof -
  have "lipSync a rnd (expressionManager v) =
         Inr (Some (m(''aa'' := lerp (m ''aa'') 0 0.2,
                      ''blink'' := (if rnd > 0.992 then 1 else lerp (m ''blink'') 0 0.2))))"
    using assms by (simp add: lipSync_silent)
  from useFrame_VRM_result [OF this, of st t] show ?thesis by auto
qed

lemma runFrames_VRM_silent:
  assumes "\<forall>f \<in> set fs. \<not> (isPlaying (frame_audioState f) \<and> analyser (frame_audioState f) \<noteq> None)"
    and "expressionManager v = Some m"
  shows "\<exists>h' m'. runFrames_VRM (Some v) fs =
                   Inr (Some \<lparr>humanoid = h', expressionManager = Some m'\<rparr>) \<and>
                 m' ''aa'' = lerpTicks (length fs) (m ''aa'') 0 0.2"
  using assms
proof (induction fs arbitrary: v m)
  case Nil
  have "v = \<lparr>humanoid = humanoid v, expressionManager = Some m\<rparr>"
    using Nil.prems(2) by (cases v) simp
  then have "runFrames_VRM (Some v) [] =
             Inr (Some \<lparr>humanoid = humanoid v, expressionManager = Some m\<rparr>)"
    by simp
  then show ?case by auto
next
  case (Cons f fs)
  have sil: "\<not> (isPlaying (frame_audioState f) \<and> analyser (frame_audioState f) \<noteq> None)"
    using Cons.prems(1) by simp
  obtain h1 m1 where step:
      "useFrame_VRM (Some v) (frame_avatarState f) (frame_audioState f)
         (frame_elapsedTime f) (frame_random f) =
       Inr (Some \<lparr>humanoid = h1, expressionManager = Some m1\<rparr>)"
      "m1 ''aa'' = lerp (m ''aa'') 0 0.2"
    using useFrame_VRM_silent [OF sil Cons.prems(2)] by blast
  have rest: "\<forall>f \<in> set fs. \<not> (isPlaying (frame_audioState f) \<and> analyser (frame_audioState f) \<noteq> None)"
    using Cons.prems(1) by simp
  obtain h' m' where run:
      "runFrames_VRM (Some \<lparr>humanoid = h1, expressionManager = Some m1\<rparr>) fs =
       Inr (Some \<lparr>humanoid = h', expressionManager = Some m'\<rparr>)"
      "m' ''aa'' = lerpTicks (length fs) (m1 ''aa'') 0 0.2"
    using Cons.IH [OF rest, of "\<lparr>humanoid = h1, expressionManager = Some m1\<rparr>" m1] by auto
  have "runFrames_VRM (Some v) (f # fs) =
        Inr (Some \<lparr>humanoid = h', expressionManager = Some m'\<rparr>)"
    using step(1) run(1) by simp
  moreover have "m' ''aa'' = lerpTicks (length (f # fs)) (m ''aa'') 0 0.2"
    using run(2) step(2) by (simp add: lerpTicks_shift)
  ultimately show ?case by blast
qed

lemma useFrame_MMD_silent:
  assumes "\<not> isPlaying a" "morphTargetInfluences ms = Some infl" "i < length infl"
  shows "useFrame_MMD (Some ms) (Some i) a =
         Inr (Some (ms\<lparr>morphTargetInfluences := Some (infl[i := lerp (infl ! i) 0 0.2])\<rparr>))"
  using assms by (simp add: useFrame_MMD_def lerpInfluence_def andThen_def)

lemma runFrames_MMD_silent:
  assumes "\<forall>a \<in> set as. \<not> isPlaying a" "morphTargetInfluences ms = Some infl" "i < length infl"
  shows "\<exists>infl'. runFrames_MMD (Some ms) (Some i) as =
                   Inr (Some (ms\<lparr>morphTargetInfluences := Some infl'\<rparr>)) \<and>
                 length infl' = length infl \<and>
                 infl' ! i = lerpTicks (length as) (infl ! i) 0 0.2"
  using assms
proof (induction as arbitrary: ms infl)
  case Nil
  have "ms\<lparr>morphTargetInfluences := Some infl\<rparr> = ms" using Nil.prems(2) by simp
  then have "runFrames_MMD (Some ms) (Some i) [] =
             Inr (Some (ms\<lparr>morphTargetInfluences := Some infl\<rparr>))" by simp
  then show ?case by auto
next
  case (Cons a as)
  let ?infl1 = "infl[i := lerp (infl ! i) 0 0.2]"
  let ?ms1 = "ms\<lparr>morphTargetInfluences := Some ?infl1\<rparr>"
  have step: "useFrame_MMD (Some ms) (Some i) a = Inr (Some ?ms1)"
    using Cons.prems by (intro useFrame_MMD_silent) auto
  have rest: "\<forall>a \<in> set as. \<not> isPlaying a" using Cons.prems(1) by simp
  have m1: "morphTargetInfluences ?ms1 = Some ?infl1" by simp
  have l1: "i < length ?infl1" using Cons.prems(3) by simp
  obtain infl' where run:
      "runFrames_MMD (Some ?ms1) (Some i) as =
       Inr (Some (?ms1\<lparr>morphTargetInfluences := Some infl'\<rparr>))"
      "length infl' = length ?infl1"
      "infl' ! i = lerpTicks (length as) (?infl1 ! i) 0 0.2"
    using Cons.IH [OF rest m1 l1] by blast
  have "runFrames_MMD (Some ms) (Some i) (a # as) =
        Inr (Some (ms\<lparr>morphTargetInfluences := Some infl'\<rparr>))"
    using step run(1) by simp
  moreover have "length infl' = length infl" using run(2) by simp
  moreover have "infl' ! i = lerpTicks (length (a # as)) (infl ! i) 0 0.2"
    using run(3) Cons.prems(3) by (simp add: lerpTicks_shift)
  ultimately show ?case by blast
qed

section \<open>Lemmas on frames with audio playing\<close>

lemma MMD_value_spec:
  "50 \<le> length dataArray \<Longrightarrow>
   MMD_value dataArray = Some (spec_voiceEnergy dataArray 2 50 100 2)"
  by (simp add: MMD_value_def spec_voiceEnergy_def sumBins_closed average_def
      samples_sum length_samples clamp_min_max)

lemma useFrame_MMD_playing:
  assumes "isPlaying a" "analyser a = Some an"
    "MMD_value (getByteFrequencyData an) = Some val"
    "morphTargetInfluences ms = Some infl" "i < length infl"
  shows "useFrame_MMD (Some ms) (Some i) a =
         Inr (Some (ms\<lparr>morphTargetInfluences := Some (infl[i := lerp (infl ! i) val 0.4])\<rparr>))"
  using assms by (simp add: useFrame_MMD_def lerpInfluence_def andThen_def)

lemma useFrame_VRM_playing:
  assumes "isPlaying a" "analyser a = Some an"
    "VRM_volume (getByteFrequencyData an) = Some volume" "expressionManager v = Some m"
  shows "\<exists>h' m'. useFrame_VRM (Some v) st a t rnd =
                   Inr (Some \<lparr>humanoid = h', expressionManager = Some m'\<rparr>) \<and>
                 m' ''aa'' = volume"
proof -
  have "lipSync a rnd (expressionManager v) =
         Inr (Some (if volume > 0.6
                    then m(''aa'' := volume, ''blink'' := lerp (m ''blink'') 0.5 0.2)
                    else m(''aa'' := volume)))"
    using assms by (simp add: lipSync_playing)
  from useFrame_VRM_result [OF this, of st t] show ?thesis by auto
qed

section \<open>Lemmas on the windows of the three drivers\<close>

lemma bins_nonneg: "0 \<le> (\<Sum>k = i..<j. real (unat ((dataArray :: 8 word list) ! k)))"
  by (intro sum_nonneg of_nat_0_le_iff)

lemma Default_volume_closed:
  "30 \<le> length dataArray \<Longrightarrow>
   Default_volume dataArray =
     Some (min 1 ((\<Sum>k = 2..<30. real (unat (dataArray ! k))) / 28 / 100))"
  by (simp add: Default_volume_def sumBins_closed)

lemma Default_volume_spec:
  assumes "30 \<le> length dataArray"
  shows "Default_volume dataArray = Some (spec_voiceEnergy dataArray 2 30 100 1)"
proof -
  have "0 \<le> (\<Sum>k = 2..<30. real (unat (dataArray ! k))) / 28 / 100"
    using bins_nonneg [of dataArray 2 30] by simp
  then show ?thesis
    using assms
    by (simp add: Default_volume_closed spec_voiceEnergy_def average_def
        samples_sum length_samples clamp_min_max max_def)
qed

lemma samples_window:
  assumes "startBin \<le> endBin" "endBin \<le> length d" "endBin \<le> length d'"
    "\<forall>k. startBin \<le> k \<and> k < endBin \<longrightarrow> d ! k = d' ! k"
  shows "samples d startBin endBin = samples d' startBin endBin"
proof (rule nth_equalityI)
  show "length (samples d startBin endBin) = length (samples d' startBin endBin)"
    using assms by (simp add: length_samples)
next
  fix j assume "j < length (samples d startBin endBin)"
  then have j: "j < endBin - startBin" using assms by (simp add: length_samples)
  then show "samples d startBin endBin ! j = samples d' startBin endBin ! j"
    using assms by (simp add: samples_def)
qed

section \<open>Lemmas on the fallback shape driver\<close>

lemma targets_Default_total:
  assumes "\<forall>an. analyser a = Some an \<longrightarrow> 30 \<le> frequencyBinCount an"
  shows "\<exists>ty tc. targets_Default newColor a = Some (ty, tc) \<and> 1 \<le> ty"
proof (cases "isPlaying a \<and> analyser a \<noteq> None")
  case False
  then have c: "(isPlaying a \<and> analyser a \<noteq> None) = False" by blast
  show ?thesis unfolding targets_Default_def c by simp
next
  case True
  then obtain an where an: "analyser a = Some an" by auto
  then have len: "30 \<le> length (getByteFrequencyData an)" using assms by simp
  let ?s = "(\<Sum>k = 2..<30. real (unat (getByteFrequencyData an ! k))) / 28 / 100"
  have v: "Default_volume (getByteFrequencyData an) = Some (min 1 ?s)"
    using len by (rule Default_volume_closed)
  have "0 \<le> ?s" using bins_nonneg [of "getByteFrequencyData an" 2 30] by simp
  then have "0 \<le> min 1 ?s" by simp
  then show ?thesis using True an v by (simp add: targets_Default_def)
qed

lemma scaleUpdate_result:
  assumes "0 < lerp (scale_y mesh) ty 0.2"
  shows "scaleUpdate mesh ty =
         Inr (mesh\<lparr>scale_y := lerp (scale_y mesh) ty 0.2,
                   scale_x := lerp (scale_x mesh) (1 / sqrt (lerp (scale_y mesh) ty 0.2)) 0.2,
                   scale_z := lerp (scale_z mesh) (1 / sqrt (lerp (scale_y mesh) ty 0.2)) 0.2\<rparr>)"
  using assms by (simp add: scaleUpdate_def Let_def)

lemma lerp_pos:
  assumes "0 < c" "1 \<le> t"
  shows "0 < lerp c t 0.2"
proof -
  have "lerp c t 0.2 = 0.8 * c + 0.2 * t" by (simp add: lerp_def field_simps)
  moreover have "0 < 0.8 * c" using assms by simp
  moreover have "0 < 0.2 * t" using assms by simp
  ultimately show ?thesis by linarith
qed

lemma useFrame_Default_result:
  assumes "0 < scale_y mesh" "\<forall>an. analyser a = Some an \<longrightarrow> 30 \<le> frequencyBinCount an"
  shows "\<exists>mesh' mat'. useFrame_Default newColor (Some mesh) mat a t = Inr (Some mesh', mat') \<and>
           0 < scale_y mesh' \<and>
           scale_x mesh' = lerp (scale_x mesh) (1 / sqrt (scale_y mesh')) 0.2 \<and>
           scale_z mesh' = lerp (scale_z mesh) (1 / sqrt (scale_y mesh')) 0.2"
proof -
  obtain ty tc where tg: "targets_Default newColor a = Some (ty, tc)" "1 \<le> ty"
    using targets_Default_total [OF assms(2)] by blast
  have pos: "0 < lerp (scale_y mesh) ty 0.2" using assms(1) tg(2) by (rule lerp_pos)
  show ?thesis
    using tg(1) pos by (simp add: useFrame_Default_def scaleUpdate_result andThen_def Let_def)
qed

lemma useFrame_Default_scales:
  assumes "useFrame_Default newColor (Some mesh) mat a t = Inr (Some mesh', mat')"
  shows "0 < scale_y mesh' \<and>
         scale_x mesh' = lerp (scale_x mesh) (1 / sqrt (scale_y mesh')) 0.2 \<and>
         scale_z mesh' = lerp (scale_z mesh) (1 / sqrt (scale_y mesh')) 0.2"
proof -
  obtain ty tc where tg: "targets_Default newColor a = Some (ty, tc)"
    using assms by (auto simp: useFrame_Default_def split: option.splits)
  have pos: "0 < lerp (scale_y mesh) ty 0.2"
    using assms tg
    by (auto simp: useFrame_Default_def scaleUpdate_def andThen_def Let_def split: if_splits)
  show ?thesis
    using assms tg pos
    by (auto simp: useFrame_Default_def scaleUpdate_result andThen_def Let_def)
qed

lemma lerp_fixed: "lerp c s 0.2 = s \<longleftrightarrow> c = s"
  by (auto simp: lerp_def field_simps)

lemma useFrame_Default_tick:
  assumes "0 < scale_y mesh" "\<forall>an. analyser a = Some an \<longrightarrow> 30 \<le> frequencyBinCount an"
  shows "\<exists>mesh' mat' ty tc.
           targets_Default newColor a = Some (ty, tc) \<and> 1 \<le> ty \<and>
           useFrame_Default newColor (Some mesh) mat a t = Inr (Some mesh', mat') \<and>
           scale_y mesh' = lerp (scale_y mesh) ty 0.2 \<and> 0 < scale_y mesh' \<and>
           scale_x mesh' = lerp (scale_x mesh) (1 / sqrt (scale_y mesh')) 0.2 \<and>
           scale_z mesh' = lerp (scale_z mesh) (1 / sqrt (scale_y mesh')) 0.2"
proof -
  obtain ty tc where tg: "targets_Default newColor a = Some (ty, tc)" "1 \<le> ty"
    using targets_Default_total [OF assms(2)] by blast
  have pos: "0 < lerp (scale_y mesh) ty 0.2" using assms(1) tg(2) by (rule lerp_pos)
  have "\<exists>mesh' mat'.
           useFrame_Default newColor (Some mesh) mat a t = Inr (Some mesh', mat') \<and>
           scale_y mesh' = lerp (scale_y mesh) ty 0.2 \<and> 0 < scale_y mesh' \<and>
           scale_x mesh' = lerp (scale_x mesh) (1 / sqrt (scale_y mesh')) 0.2 \<and>
           scale_z mesh' = lerp (scale_z mesh) (1 / sqrt (scale_y mesh')) 0.2"
    using tg(1) pos by (simp add: useFrame_Default_def scaleUpdate_result andThen_def Let_def)
  with tg show ?thesis by blast
qed

lemma runFrames_Default_invariant:
  assumes "scale_x mesh = scale_z mesh" "0 < scale_y mesh"
    and "\<forall>f \<in> set fs. \<forall>an. analyser (fst f) = Some an \<longrightarrow> 30 \<le> frequencyBinCount an"
  shows "\<exists>m mt. runFrames_Default newColor (Some mesh) mat fs = Inr (Some m, mt) \<and>
                scale_x m = scale_z m \<and> 0 < scale_y m"
  using assms
proof (induction fs arbitrary: mesh mat)
  case Nil
  then show ?case by simp
next
  case (Cons f fs)
  have an: "\<forall>an. analyser (fst f) = Some an \<longrightarrow> 30 \<le> frequencyBinCount an"
    using Cons.prems(3) by simp
  obtain m1 mt1 where step:
      "useFrame_Default newColor (Some mesh) mat (fst f) (snd f) = Inr (Some m1, mt1)"
      "0 < scale_y m1"
      "scale_x m1 = lerp (scale_x mesh) (1 / sqrt (scale_y m1)) 0.2"
      "scale_z m1 = lerp (scale_z mesh) (1 / sqrt (scale_y m1)) 0.2"
    using useFrame_Default_tick [OF Cons.prems(2) an, of newColor mat "snd f"] by blast
  have eq: "scale_x m1 = scale_z m1" using step(3,4) Cons.prems(1) by simp
  have rest: "\<forall>f \<in> set fs. \<forall>an. analyser (fst f) = Some an \<longrightarrow> 30 \<le> frequencyBinCount an"
    using Cons.prems(3) by simp
  obtain m mt where run: "runFrames_Default newColor (Some m1) mt1 fs = Inr (Some m, mt)"
      "scale_x m = scale_z m" "0 < scale_y m"
    using Cons.IH [OF eq step(2) rest, of mt1] by blast
  have "runFrames_Default newColor (Some mesh) mat (f # fs) = Inr (Some m, mt)"
    using step(1) run(1) by simp
  with run(2,3) show ?case by blast
qed

lemma loud_targets_Default:
  "targets_Default newColor \<lparr>isPlaying = True, analyser = Some (initAudioContext (\<lambda>k. 200))\<rparr> =
   Some (3/2, newColor ''#818cf8'')"
proof -
  let ?d = "getByteFrequencyData (initAudioContext (\<lambda>k. 200))"
  have len: "length ?d = 128" by (simp add: initAudioContext_def frequencyBinCount_def)
  have "(\<Sum>k = 2..<30. real (unat (?d ! k))) = (\<Sum>k = 2..<(30::nat). 200)"
    by (intro sum.cong)
       (auto simp: nth_getByteFrequencyData initAudioContext_def frequencyBinCount_def)
  then have v: "Default_volume ?d = Some 1"
    using len by (simp add: Default_volume_closed)
  show ?thesis using v by (simp add: targets_Default_def)
qed

lemma typing_frame_partial_rig:
  "useFrame_VRM
     (Some \<lparr>humanoid = [Head \<mapsto> \<lparr>rotation_x = 0, rotation_y = 0, rotation_z = 0\<rparr>],
            expressionManager = None\<rparr>)
     typing \<lparr>isPlaying = False, analyser = None\<rparr> 0 0 =
   Inr (Some \<lparr>humanoid = [Head \<mapsto> \<lparr>rotation_x = 3/100, rotation_y = 0, rotation_z = 0\<rparr>],
               expressionManager = None\<rparr>)"
  by (simp add: useFrame_VRM_def poseTargets_def rotateBone_def getRawBoneNode_def
      rotation_def andThen_def lipSync_def lerp_def)

lemma spec_voiceEnergy_MMD_all_200:
  "spec_voiceEnergy (getByteFrequencyData (initAudioContext (\<lambda>k. 200))) 2 50 100 2 = 1"
proof -
  let ?d = "getByteFrequencyData (initAudioContext (\<lambda>k. 200))"
  have len: "length ?d = 128" by (simp add: initAudioContext_def frequencyBinCount_def)
  have "(\<Sum>k = 2..<50. real (unat (?d ! k))) = (\<Sum>k = 2..<(50::nat). 200)"
    by (intro sum.cong)
       (auto simp: nth_getByteFrequencyData initAudioContext_def frequencyBinCount_def)
  then show ?thesis
    using len by (simp add: spec_voiceEnergy_def average_def samples_sum length_samples clamp_def)
qed

section \<open>Claims\<close>

text \<open>
  C1. In a frame with the analyser present and \<open>isPlaying\<close> true (the analyser reporting
  at least 30 bins, as the one of \<open>initAudioContext\<close> does with its 128), the volume the
  rig driver computes is
  clamp((average of the magnitudes of bins 2 to 29) / 255 * 3.5, 0, 1), the spec's formula,
  and it is the value the frame hands to the expression manager as the mouth weight.
  When the magnitudes of bins 2 to 29 are all 200 it is clamp(200/255*3.5, 0, 1), which is
  exactly 1.
\<close>

theorem VRM_voice_energy:
  assumes "isPlaying audioState" "analyser audioState = Some a" "30 \<le> frequencyBinCount a"
  shows "VRM_volume (getByteFrequencyData a) =
           Some (spec_voiceEnergy (getByteFrequencyData a) 2 30 255 3.5) \<and>
         (expressionManager v = Some m \<longrightarrow>
            (\<exists>h' m'. useFrame_VRM (Some v) st audioState t rnd =
                        Inr (Some \<lparr>humanoid = h', expressionManager = Some m'\<rparr>) \<and>
                      m' ''aa'' = spec_voiceEnergy (getByteFrequencyData a) 2 30 255 3.5)) \<and>
         ((\<forall>k. 2 \<le> k \<and> k < 30 \<longrightarrow> spectrum a k = 200) \<longrightarrow>
            VRM_volume (getByteFrequencyData a) = Some 1 \<and>
            spec_voiceEnergy (getByteFrequencyData a) 2 30 255 3.5 = clamp (200 / 255 * 3.5) 0 1)"
proof -
  have len: "30 \<le> length (getByteFrequencyData a)" using assms(3) by simp
  have e: "VRM_volume (getByteFrequencyData a) =
           Some (spec_voiceEnergy (getByteFrequencyData a) 2 30 255 3.5)"
    using len by (rule VRM_volume_spec)
  have fr: "expressionManager v = Some m \<longrightarrow>
            (\<exists>h' m'. useFrame_VRM (Some v) st audioState t rnd =
                        Inr (Some \<lparr>humanoid = h', expressionManager = Some m'\<rparr>) \<and>
                      m' ''aa'' = spec_voiceEnergy (getByteFrequencyData a) 2 30 255 3.5)"
    using useFrame_VRM_playing [OF assms(1,2) e] by blast
  have loud: "(\<forall>k. 2 \<le> k \<and> k < 30 \<longrightarrow> spectrum a k = 200) \<longrightarrow>
            VRM_volume (getByteFrequencyData a) = Some 1 \<and>
            spec_voiceEnergy (getByteFrequencyData a) 2 30 255 3.5 = clamp (200 / 255 * 3.5) 0 1"
  proof
    assume h: "\<forall>k. 2 \<le> k \<and> k < 30 \<longrightarrow> spectrum a k = 200"
    have "\<forall>k. 2 \<le> k \<and> k < 30 \<longrightarrow> getByteFrequencyData a ! k = 200"
      using h assms(3) by (simp add: nth_getByteFrequencyData)
    then have v: "VRM_volume (getByteFrequencyData a) = Some 1"
      using len by (intro VRM_volume_all_200) auto
    have "clamp (200 / 255 * 3.5) 0 1 = 1" by (simp add: clamp_def)
    with v e show "VRM_volume (getByteFrequencyData a) = Some 1 \<and>
            spec_voiceEnergy (getByteFrequencyData a) 2 30 255 3.5 = clamp (200 / 255 * 3.5) 0 1"
      by simp
  qed
  from e fr loud show ?thesis by blast
qed

theorem VRM_voice_energy_witness:
  "isPlaying \<lparr>isPlaying = True, analyser = Some (initAudioContext (\<lambda>k. 200))\<rparr> \<and>
   analyser \<lparr>isPlaying = True, analyser = Some (initAudioContext (\<lambda>k. 200))\<rparr> =
     Some (initAudioContext (\<lambda>k. 200)) \<and>
   30 \<le> frequencyBinCount (initAudioContext (\<lambda>k. 200)) \<and>
   VRM_volume (getByteFrequencyData (initAudioContext (\<lambda>k. 200))) = Some 1 \<and>
   spec_voiceEnergy (getByteFrequencyData (initAudioContext (\<lambda>k. 200))) 2 30 255 3.5 = 1"
  using VRM_voice_energy [of "\<lparr>isPlaying = True, analyser = Some (initAudioContext (\<lambda>k. 200))\<rparr>"
      "initAudioContext (\<lambda>k. 200)"]
  by (simp add: initAudioContext_def frequencyBinCount_def clamp_def)

text \<open>
  C2 as stated fails on the rig driver: with the mouth weight \<open>aa\<close> at 0 and a voice energy
  of 1 (all bins at 200), one frame writes \<open>aa = 1\<close>, the voice energy itself, where
  lerp(0, 1, 0.4) is 2/5.
\<close>

theorem VRM_mouth_assigned_directly:
  "VRM_volume (getByteFrequencyData (initAudioContext (\<lambda>k. 200))) = Some 1 \<and>
   useFrame_VRM (Some \<lparr>humanoid = Map.empty, expressionManager = Some (\<lambda>n. 0)\<rparr>) speaking
     \<lparr>isPlaying = True, analyser = Some (initAudioContext (\<lambda>k. 200))\<rparr> 0 0 =
   Inr (Some \<lparr>humanoid = Map.empty,
               expressionManager = Some ((\<lambda>n. 0)(''aa'' := 1, ''blink'' := 1/10))\<rparr>) \<and>
   lerp 0 1 0.4 = 2/5 \<and> (2/5 :: real) \<noteq> 1"
proof -
  have v: "VRM_volume (getByteFrequencyData (initAudioContext (\<lambda>k. 200))) = Some 1"
    by (rule VRM_volume_all_200)
       (simp_all add: initAudioContext_def frequencyBinCount_def nth_getByteFrequencyData)
  have "lipSync \<lparr>isPlaying = True, analyser = Some (initAudioContext (\<lambda>k. 200))\<rparr> 0
          (Some (\<lambda>n. 0)) =
        Inr (Some ((\<lambda>n. 0)(''aa'' := 1, ''blink'' := 1/10)))"
    using lipSync_playing [of "\<lparr>isPlaying = True, analyser = Some (initAudioContext (\<lambda>k. 200))\<rparr>"
        "initAudioContext (\<lambda>k. 200)" 1 0 "\<lambda>n. 0"] v
    by (simp add: lerp_def)
  then have "useFrame_VRM (Some \<lparr>humanoid = Map.empty, expressionManager = Some (\<lambda>n. 0)\<rparr>) speaking
     \<lparr>isPlaying = True, analyser = Some (initAudioContext (\<lambda>k. 200))\<rparr> 0 0 =
   Inr (Some \<lparr>humanoid = Map.empty,
               expressionManager = Some ((\<lambda>n. 0)(''aa'' := 1, ''blink'' := 1/10))\<rparr>)"
    by (simp add: useFrame_VRM_def poseTargets_def rotateBone_def getRawBoneNode_def andThen_def
        Let_def)
  with v show ?thesis by (simp add: lerp_def)
qed

text \<open>
  C2, amended. In every frame with audio playing and the voice energy computable, the
  morph-target driver advances the mouth morph influence from its current value toward
  the voice energy by lerp with factor 0.4 (the mesh having influences that reach the
  morph index), and the rig driver sets the mouth weight \<open>aa\<close> to its voice energy (the rig
  having an expression manager).
\<close>

theorem mouth_follows_voice_energy:
  assumes "isPlaying a" "analyser a = Some an"
  shows "(50 \<le> frequencyBinCount an \<and> morphTargetInfluences ms = Some infl \<and> i < length infl \<longrightarrow>
            MMD_value (getByteFrequencyData an) =
              Some (spec_voiceEnergy (getByteFrequencyData an) 2 50 100 2) \<and>
            useFrame_MMD (Some ms) (Some i) a =
              Inr (Some (ms\<lparr>morphTargetInfluences :=
                Some (infl[i := lerp (infl ! i)
                                  (spec_voiceEnergy (getByteFrequencyData an) 2 50 100 2) 0.4])\<rparr>))) \<and>
         (30 \<le> frequencyBinCount an \<and> expressionManager v = Some m \<longrightarrow>
            VRM_volume (getByteFrequencyData an) =
              Some (spec_voiceEnergy (getByteFrequencyData an) 2 30 255 3.5) \<and>
            (\<exists>h' m'. useFrame_VRM (Some v) st a t rnd =
                        Inr (Some \<lparr>humanoid = h', expressionManager = Some m'\<rparr>) \<and>
                      m' ''aa'' = spec_voiceEnergy (getByteFrequencyData an) 2 30 255 3.5))"
proof (intro conjI impI)
  assume h: "50 \<le> frequencyBinCount an \<and> morphTargetInfluences ms = Some infl \<and> i < length infl"
  then show e: "MMD_value (getByteFrequencyData an) =
              Some (spec_voiceEnergy (getByteFrequencyData an) 2 50 100 2)"
    by (simp add: MMD_value_spec)
  show "useFrame_MMD (Some ms) (Some i) a =
              Inr (Some (ms\<lparr>morphTargetInfluences :=
                Some (infl[i := lerp (infl ! i)
                                  (spec_voiceEnergy (getByteFrequencyData an) 2 50 100 2) 0.4])\<rparr>))"
    using useFrame_MMD_playing [OF assms e] h by simp
next
  assume h: "30 \<le> frequencyBinCount an \<and> expressionManager v = Some m"
  then show e: "VRM_volume (getByteFrequencyData an) =
              Some (spec_voiceEnergy (getByteFrequencyData an) 2 30 255 3.5)"
    by (simp add: VRM_volume_spec)
  show "\<exists>h' m'. useFrame_VRM (Some v) st a t rnd =
                        Inr (Some \<lparr>humanoid = h', expressionManager = Some m'\<rparr>) \<and>
                      m' ''aa'' = spec_voiceEnergy (getByteFrequencyData an) 2 30 255 3.5"
    using useFrame_VRM_playing [OF assms e] h by simp
qed

theorem mouth_follows_voice_energy_witness:
  "isPlaying \<lparr>isPlaying = True, analyser = Some (initAudioContext (\<lambda>k. 200))\<rparr> \<and>
   analyser \<lparr>isPlaying = True, analyser = Some (initAudioContext (\<lambda>k. 200))\<rparr> =
     Some (initAudioContext (\<lambda>k. 200)) \<and>
   50 \<le> frequencyBinCount (initAudioContext (\<lambda>k. 200)) \<and>
   useFrame_MMD (Some \<lparr>morphTargetInfluences = Some [0]\<rparr>) (Some 0)
     \<lparr>isPlaying = True, analyser = Some (initAudioContext (\<lambda>k. 200))\<rparr> =
   Inr (Some \<lparr>morphTargetInfluences = Some [2/5]\<rparr>) \<and>
   (\<exists>h' m'. useFrame_VRM (Some \<lparr>humanoid = Map.empty, expressionManager = Some (\<lambda>n. 0)\<rparr>)
       speaking \<lparr>isPlaying = True, analyser = Some (initAudioContext (\<lambda>k. 200))\<rparr> 0 0 =
         Inr (Some \<lparr>humanoid = h', expressionManager = Some m'\<rparr>) \<and>
       m' ''aa'' = spec_voiceEnergy (getByteFrequencyData (initAudioContext (\<lambda>k. 200))) 2 30 255 3.5)"
  using mouth_follows_voice_energy
    [of "\<lparr>isPlaying = True, analyser = Some (initAudioContext (\<lambda>k. 200))\<rparr>"
      "initAudioContext (\<lambda>k. 200)" "\<lparr>morphTargetInfluences = Some [0]\<rparr>" "[0]" 0
      "\<lparr>humanoid = Map.empty, expressionManager = Some (\<lambda>n. 0)\<rparr>" "\<lambda>n. 0" speaking 0 0]
    spec_voiceEnergy_MMD_all_200 initAudioContext_bins
  by (simp add: lerp_def)

text \<open>
  C3 as stated fails: the fallback shape driver reads bins 2 to 29 only. On a spectrum
  that is 0 below bin 30 and 255 from bin 30 on, its volume is 0, where the same formula
  over the window [2,50) gives 1.
\<close>

theorem Default_window_is_not_2_50:
  "Default_volume
     (getByteFrequencyData (initAudioContext (\<lambda>k. if k < 30 then 0 else 255))) = Some 0 \<and>
   min 1 (average (samples
     (getByteFrequencyData (initAudioContext (\<lambda>k. if k < 30 then 0 else 255))) 2 50) / 100) =
     (1::real)"
proof -
  let ?d = "getByteFrequencyData (initAudioContext (\<lambda>k. if k < 30 then 0 else 255))"
  have len: "length ?d = 128" by (simp add: initAudioContext_def frequencyBinCount_def)
  have nth: "\<And>k. k < 128 \<Longrightarrow> ?d ! k = (if k < 30 then 0 else 255)"
    by (simp add: nth_getByteFrequencyData initAudioContext_def frequencyBinCount_def)
  have "(\<Sum>k = 2..<30. real (unat (?d ! k))) = (\<Sum>k = 2..<(30::nat). 0)"
    by (intro sum.cong) (auto simp: nth)
  then have a: "Default_volume ?d = Some 0"
    using len by (simp add: Default_volume_closed)
  have split: "{2..<50::nat} = {2..<30} \<union> {30..<50}" by auto
  have "(\<Sum>k = 2..<50. real (unat (?d ! k))) =
        (\<Sum>k = 2..<30. real (unat (?d ! k))) + (\<Sum>k = 30..<50. real (unat (?d ! k)))"
    unfolding split by (intro sum.union_disjoint) auto
  also have "(\<Sum>k = 2..<30. real (unat (?d ! k))) = (\<Sum>k = 2..<(30::nat). 0)"
    by (intro sum.cong) (auto simp: nth)
  also have "(\<Sum>k = 30..<50. real (unat (?d ! k))) = (\<Sum>k = 30..<(50::nat). 255)"
    by (intro sum.cong) (auto simp: nth)
  finally have "(\<Sum>k = 2..<50. real (unat (?d ! k))) = 5100" by simp
  then have b: "min 1 (average (samples ?d 2 50) / 100) = (1::real)"
    using len by (simp add: average_def samples_sum length_samples)
  from a b show ?thesis by simp
qed

text \<open>
  C3, amended. The fallback shape driver and the rig driver both compute their voice
  energy from the window of bins [2,30) (each from its own local \<open>startBin\<close> and \<open>endBin\<close>,
  with divisor 100 and no sensitivity factor in the fallback driver, divisor 255 and
  sensitivity 3.5 in the rig driver): two spectra that agree on bins 2 to 29 give the same
  volume in both. The window [2,50) is the one of the morph-target driver.
\<close>

theorem driver_windows:
  assumes "30 \<le> length d" "30 \<le> length d'"
  shows "Default_volume d = Some (spec_voiceEnergy d 2 30 100 1) \<and>
         VRM_volume d = Some (spec_voiceEnergy d 2 30 255 3.5) \<and>
         ((\<forall>k. 2 \<le> k \<and> k < 30 \<longrightarrow> d ! k = d' ! k) \<longrightarrow>
            Default_volume d = Default_volume d' \<and> VRM_volume d = VRM_volume d') \<and>
         (50 \<le> length d \<longrightarrow> MMD_value d = Some (spec_voiceEnergy d 2 50 100 2)) \<and>
         (50 \<le> length d \<and> 50 \<le> length d' \<and> (\<forall>k. 2 \<le> k \<and> k < 50 \<longrightarrow> d ! k = d' ! k) \<longrightarrow>
            MMD_value d = MMD_value d')"
proof -
  note l = assms
  have 1: "Default_volume d = Some (spec_voiceEnergy d 2 30 100 1)"
    using l by (simp add: Default_volume_spec)
  have 2: "VRM_volume d = Some (spec_voiceEnergy d 2 30 255 3.5)"
    using l by (simp add: VRM_volume_spec)
  have 3: "50 \<le> length d \<longrightarrow> MMD_value d = Some (spec_voiceEnergy d 2 50 100 2)"
    by (simp add: MMD_value_spec)
  have 4: "(\<forall>k. 2 \<le> k \<and> k < 30 \<longrightarrow> d ! k = d' ! k) \<longrightarrow>
            Default_volume d = Default_volume d' \<and> VRM_volume d = VRM_volume d'"
  proof
    assume "\<forall>k. 2 \<le> k \<and> k < 30 \<longrightarrow> d ! k = d' ! k"
    then have "samples d 2 30 = samples d' 2 30"
      using l by (intro samples_window) auto
    then show "Default_volume d = Default_volume d' \<and> VRM_volume d = VRM_volume d'"
      using l by (simp add: Default_volume_spec VRM_volume_spec spec_voiceEnergy_def)
  qed
  have 5: "50 \<le> length d \<and> 50 \<le> length d' \<and> (\<forall>k. 2 \<le> k \<and> k < 50 \<longrightarrow> d ! k = d' ! k) \<longrightarrow>
            MMD_value d = MMD_value d'"
  proof
    assume h: "50 \<le> length d \<and> 50 \<le> length d' \<and> (\<forall>k. 2 \<le> k \<and> k < 50 \<longrightarrow> d ! k = d' ! k)"
    then have "samples d 2 50 = samples d' 2 50"
      by (intro samples_window) auto
    then show "MMD_value d = MMD_value d'"
      using h by (simp add: MMD_value_spec spec_voiceEnergy_def)
  qed
  from 1 2 3 4 5 show ?thesis by blast
qed

theorem driver_windows_witness:
  "30 \<le> length (getByteFrequencyData (initAudioContext (\<lambda>k. if k < 30 then 0 else 255))) \<and>
   30 \<le> length (getByteFrequencyData (initAudioContext (\<lambda>k. 0))) \<and>
   Default_volume (getByteFrequencyData (initAudioContext (\<lambda>k. if k < 30 then 0 else 255))) =
     Default_volume (getByteFrequencyData (initAudioContext (\<lambda>k. 0))) \<and>
   VRM_volume (getByteFrequencyData (initAudioContext (\<lambda>k. if k < 30 then 0 else 255))) =
     VRM_volume (getByteFrequencyData (initAudioContext (\<lambda>k. 0)))"
proof -
  let ?d = "getByteFrequencyData (initAudioContext (\<lambda>k. if k < 30 then 0 else 255))"
  let ?d' = "getByteFrequencyData (initAudioContext (\<lambda>k. 0))"
  have l: "30 \<le> length ?d" "30 \<le> length ?d'"
    by (simp_all add: initAudioContext_def frequencyBinCount_def)
  have agree: "\<forall>k. 2 \<le> k \<and> k < 30 \<longrightarrow> ?d ! k = ?d' ! k"
    by (simp add: initAudioContext_def frequencyBinCount_def nth_getByteFrequencyData)
  from driver_windows [OF l] agree l show ?thesis by blast
qed

text \<open>
  C4 as stated fails. From the initial scale (1, 1, 1), one tick with loud audio (all bins
  at 200, so the target of scaleY is 1.5) gives scaleY = 11/10 and
  scaleX = scaleZ = lerp(1, 1/sqrt(11/10), 0.2), which is not 1/sqrt(11/10).
\<close>

theorem Default_scaleX_is_not_inverse_sqrt:
  "useFrame_Default (\<lambda>hex. \<lparr>color_r = 0, color_g = 0, color_b = 0\<rparr>)
     (Some \<lparr>scale_x = 1, scale_y = 1, scale_z = 1, position_y = 0, mesh_rotation_y = 0\<rparr>) None
     \<lparr>isPlaying = True, analyser = Some (initAudioContext (\<lambda>k. 200))\<rparr> 0 =
   Inr (Some \<lparr>scale_x = lerp 1 (1 / sqrt (11/10)) 0.2, scale_y = 11/10,
               scale_z = lerp 1 (1 / sqrt (11/10)) 0.2,
               position_y = 1/2, mesh_rotation_y = 1/100\<rparr>, None) \<and>
   lerp 1 (1 / sqrt (11/10)) 0.2 \<noteq> 1 / sqrt (11/10)"
proof -
  have tg: "targets_Default (\<lambda>hex. \<lparr>color_r = 0, color_g = 0, color_b = 0\<rparr>)
              \<lparr>isPlaying = True, analyser = Some (initAudioContext (\<lambda>k. 200))\<rparr> =
            Some (3/2, \<lparr>color_r = 0, color_g = 0, color_b = 0\<rparr>)"
    by (simp add: loud_targets_Default)
  have y: "lerp 1 (3/2) (1/5) = 11/10" by (simp add: lerp_def)
  have su: "scaleUpdate \<lparr>scale_x = 1, scale_y = 1, scale_z = 1, position_y = 0, mesh_rotation_y = 0\<rparr> (3/2) =
            Inr \<lparr>scale_x = lerp 1 (1 / sqrt (11/10)) 0.2, scale_y = 11/10,
                 scale_z = lerp 1 (1 / sqrt (11/10)) 0.2,
                 position_y = 0, mesh_rotation_y = 0\<rparr>"
    by (simp add: scaleUpdate_def Let_def y)
  have 1: "useFrame_Default (\<lambda>hex. \<lparr>color_r = 0, color_g = 0, color_b = 0\<rparr>)
     (Some \<lparr>scale_x = 1, scale_y = 1, scale_z = 1, position_y = 0, mesh_rotation_y = 0\<rparr>) None
     \<lparr>isPlaying = True, analyser = Some (initAudioContext (\<lambda>k. 200))\<rparr> 0 =
   Inr (Some \<lparr>scale_x = lerp 1 (1 / sqrt (11/10)) 0.2, scale_y = 11/10,
               scale_z = lerp 1 (1 / sqrt (11/10)) 0.2,
               position_y = 1/2, mesh_rotation_y = 1/100\<rparr>, None)"
    unfolding useFrame_Default_def by (simp add: tg su andThen_def del: One_nat_def)
  have "(1::real) \<noteq> 1 / sqrt (11/10)" by simp
  then have 2: "lerp 1 (1 / sqrt (11/10)) 0.2 \<noteq> 1 / sqrt (11/10)"
    using lerp_fixed [of 1 "1 / sqrt (11/10)"] by blast
  from 1 2 show ?thesis by (rule conjI)
qed

text \<open>
  C4, amended. For every tick of the fallback shape driver that starts with scaleY > 0
  (and an analyser, if any, of at least 30 bins) the tick returns, the new scaleY is the
  old one advanced toward the target by lerp with factor 0.2 and is again > 0, and
  immediately after the tick scaleX and scaleZ are their old values advanced toward
  1/sqrt(new scaleY) by lerp with factor 0.2. So scaleX == scaleZ after the tick whenever
  they were equal before it, and a horizontal scale equals 1/sqrt(new scaleY) after the
  tick exactly when it was equal to that value before. Every state that a run of frames
  reaches from a state with scaleX == scaleZ and scaleY > 0, such as the initial scale
  (1, 1, 1), has scaleX == scaleZ and scaleY > 0 again.
\<close>

theorem Default_scale_tracks_inverse_sqrt:
  assumes "0 < scale_y mesh" "\<forall>an. analyser a = Some an \<longrightarrow> 30 \<le> frequencyBinCount an"
  shows "(\<exists>mesh' mat' ty tc.
           targets_Default newColor a = Some (ty, tc) \<and>
           useFrame_Default newColor (Some mesh) mat a t = Inr (Some mesh', mat') \<and>
           scale_y mesh' = lerp (scale_y mesh) ty 0.2 \<and> 0 < scale_y mesh' \<and>
           scale_x mesh' = lerp (scale_x mesh) (1 / sqrt (scale_y mesh')) 0.2 \<and>
           scale_z mesh' = lerp (scale_z mesh) (1 / sqrt (scale_y mesh')) 0.2 \<and>
           (scale_x mesh = scale_z mesh \<longrightarrow> scale_x mesh' = scale_z mesh') \<and>
           (scale_x mesh' = 1 / sqrt (scale_y mesh') \<longleftrightarrow> scale_x mesh = 1 / sqrt (scale_y mesh')) \<and>
           (scale_z mesh' = 1 / sqrt (scale_y mesh') \<longleftrightarrow> scale_z mesh = 1 / sqrt (scale_y mesh'))) \<and>
         (scale_x mesh = scale_z mesh \<and>
          (\<forall>f \<in> set fs. \<forall>an. analyser (fst f) = Some an \<longrightarrow> 30 \<le> frequencyBinCount an) \<longrightarrow>
            (\<exists>m mt. runFrames_Default newColor (Some mesh) mat fs = Inr (Some m, mt) \<and>
               scale_x m = scale_z m \<and> 0 < scale_y m))"
proof (rule conjI)
  obtain mesh' mat' ty tc where r:
      "targets_Default newColor a = Some (ty, tc)"
      "useFrame_Default newColor (Some mesh) mat a t = Inr (Some mesh', mat')"
      "scale_y mesh' = lerp (scale_y mesh) ty 0.2" "0 < scale_y mesh'"
      "scale_x mesh' = lerp (scale_x mesh) (1 / sqrt (scale_y mesh')) 0.2"
      "scale_z mesh' = lerp (scale_z mesh) (1 / sqrt (scale_y mesh')) 0.2"
    using useFrame_Default_tick [OF assms, of newColor mat t] by blast
  have eq: "scale_x mesh = scale_z mesh \<longrightarrow> scale_x mesh' = scale_z mesh'"
    using r(5,6) by simp
  have fx: "scale_x mesh' = 1 / sqrt (scale_y mesh') \<longleftrightarrow> scale_x mesh = 1 / sqrt (scale_y mesh')"
    unfolding r(5) by (rule lerp_fixed)
  have fz: "scale_z mesh' = 1 / sqrt (scale_y mesh') \<longleftrightarrow> scale_z mesh = 1 / sqrt (scale_y mesh')"
    unfolding r(6) by (rule lerp_fixed)
  from r eq fx fz show "\<exists>mesh' mat' ty tc.
           targets_Default newColor a = Some (ty, tc) \<and>
           useFrame_Default newColor (Some mesh) mat a t = Inr (Some mesh', mat') \<and>
           scale_y mesh' = lerp (scale_y mesh) ty 0.2 \<and> 0 < scale_y mesh' \<and>
           scale_x mesh' = lerp (scale_x mesh) (1 / sqrt (scale_y mesh')) 0.2 \<and>
           scale_z mesh' = lerp (scale_z mesh) (1 / sqrt (scale_y mesh')) 0.2 \<and>
           (scale_x mesh = scale_z mesh \<longrightarrow> scale_x mesh' = scale_z mesh') \<and>
           (scale_x mesh' = 1 / sqrt (scale_y mesh') \<longleftrightarrow> scale_x mesh = 1 / sqrt (scale_y mesh')) \<and>
           (scale_z mesh' = 1 / sqrt (scale_y mesh') \<longleftrightarrow> scale_z mesh = 1 / sqrt (scale_y mesh'))"
    by blast
next
  show "scale_x mesh = scale_z mesh \<and>
          (\<forall>f \<in> set fs. \<forall>an. analyser (fst f) = Some an \<longrightarrow> 30 \<le> frequencyBinCount an) \<longrightarrow>
            (\<exists>m mt. runFrames_Default newColor (Some mesh) mat fs = Inr (Some m, mt) \<and>
               scale_x m = scale_z m \<and> 0 < scale_y m)"
    using runFrames_Default_invariant [of mesh fs newColor mat] assms(1) by blast
qed

theorem Default_scale_tracks_inverse_sqrt_witness:
  "0 < scale_y \<lparr>scale_x = 1, scale_y = 1, scale_z = 1, position_y = 0, mesh_rotation_y = 0\<rparr> \<and>
   analyser \<lparr>isPlaying = True, analyser = Some (initAudioContext (\<lambda>k. 200))\<rparr> =
     Some (initAudioContext (\<lambda>k. 200)) \<and>
   30 \<le> frequencyBinCount (initAudioContext (\<lambda>k. 200)) \<and>
   (\<exists>mesh' mat'. useFrame_Default (\<lambda>hex. \<lparr>color_r = 0, color_g = 0, color_b = 0\<rparr>)
       (Some \<lparr>scale_x = 1, scale_y = 1, scale_z = 1, position_y = 0, mesh_rotation_y = 0\<rparr>)
       None \<lparr>isPlaying = True, analyser = Some (initAudioContext (\<lambda>k. 200))\<rparr> 0 =
         Inr (Some mesh', mat') \<and>
      scale_y mesh' = 11/10 \<and>
      scale_x mesh' = lerp 1 (1 / sqrt (11/10)) 0.2 \<and>
      scale_z mesh' = lerp 1 (1 / sqrt (11/10)) 0.2 \<and>
      scale_x mesh' = scale_z mesh' \<and>
      scale_x mesh' \<noteq> 1 \<and>
      scale_x mesh' \<noteq> 1 / sqrt (scale_y mesh')) \<and>
   (\<exists>m mt. runFrames_Default (\<lambda>hex. \<lparr>color_r = 0, color_g = 0, color_b = 0\<rparr>)
       (Some \<lparr>scale_x = 1, scale_y = 1, scale_z = 1, position_y = 0, mesh_rotation_y = 0\<rparr>)
       None
       [(\<lparr>isPlaying = True, analyser = Some (initAudioContext (\<lambda>k. 200))\<rparr>, 0),
        (\<lparr>isPlaying = False, analyser = Some (initAudioContext (\<lambda>k. 200))\<rparr>, 1)] =
         Inr (Some m, mt) \<and>
      scale_x m = scale_z m \<and> 0 < scale_y m)"
proof -
  let ?c = "\<lambda>hex. \<lparr>color_r = 0, color_g = 0, color_b = 0\<rparr>"
  let ?m0 = "\<lparr>scale_x = 1, scale_y = 1, scale_z = 1, position_y = 0, mesh_rotation_y = 0\<rparr>"
  let ?a = "\<lparr>isPlaying = True, analyser = Some (initAudioContext (\<lambda>k. 200))\<rparr>"
  let ?b = "\<lparr>isPlaying = False, analyser = Some (initAudioContext (\<lambda>k. 200))\<rparr>"
  let ?fs = "[(?a, 0::real), (?b, 1)]"
  have bins: "30 \<le> frequencyBinCount (initAudioContext (\<lambda>k. 200))"
    by (simp add: initAudioContext_bins)
  have h1: "0 < scale_y ?m0" by simp
  have h2: "\<forall>an. analyser ?a = Some an \<longrightarrow> 30 \<le> frequencyBinCount an"
    using bins by simp
  have h3: "scale_x ?m0 = scale_z ?m0 \<and>
            (\<forall>f \<in> set ?fs. \<forall>an. analyser (fst f) = Some an \<longrightarrow> 30 \<le> frequencyBinCount an)"
    using bins by simp
  note inst = Default_scale_tracks_inverse_sqrt [OF h1 h2, of ?c None 0 ?fs]
  from inst obtain mesh' mat' ty tc where r:
      "targets_Default ?c ?a = Some (ty, tc)"
      "useFrame_Default ?c (Some ?m0) None ?a 0 = Inr (Some mesh', mat')"
      "scale_y mesh' = lerp (scale_y ?m0) ty 0.2"
      "scale_x mesh' = lerp (scale_x ?m0) (1 / sqrt (scale_y mesh')) 0.2"
      "scale_z mesh' = lerp (scale_z ?m0) (1 / sqrt (scale_y mesh')) 0.2"
      "scale_x mesh' = 1 / sqrt (scale_y mesh') \<longleftrightarrow> scale_x ?m0 = 1 / sqrt (scale_y mesh')"
    by blast
  have ty: "ty = 3/2" using r(1) loud_targets_Default [of ?c] by simp
  have y: "scale_y mesh' = 11/10" using r(3) ty by (simp add: lerp_def)
  have x: "scale_x mesh' = lerp 1 (1 / sqrt (11/10)) 0.2" using r(4) y by simp
  have z: "scale_z mesh' = lerp 1 (1 / sqrt (11/10)) 0.2" using r(5) y by simp
  have ne: "(1::real) \<noteq> 1 / sqrt (11/10)" by simp
  have n1: "scale_x mesh' \<noteq> 1 / sqrt (scale_y mesh')" using r(6) ne unfolding y by simp
  have n2: "scale_x mesh' \<noteq> 1"
  proof
    assume "scale_x mesh' = 1"
    then have "lerp 1 (1 / sqrt (11/10)) 0.2 = 1" using x by simp
    then have "1 / sqrt (11/10) = (1::real)" by (simp add: lerp_def)
    with ne show False by simp
  qed
  have tick: "\<exists>mesh' mat'. useFrame_Default ?c (Some ?m0) None ?a 0 = Inr (Some mesh', mat') \<and>
      scale_y mesh' = 11/10 \<and>
      scale_x mesh' = lerp 1 (1 / sqrt (11/10)) 0.2 \<and>
      scale_z mesh' = lerp 1 (1 / sqrt (11/10)) 0.2 \<and>
      scale_x mesh' = scale_z mesh' \<and>
      scale_x mesh' \<noteq> 1 \<and>
      scale_x mesh' \<noteq> 1 / sqrt (scale_y mesh')"
    using r(2) y x z n1 n2 by auto
  have run: "\<exists>m mt. runFrames_Default ?c (Some ?m0) None ?fs = Inr (Some m, mt) \<and>
      scale_x m = scale_z m \<and> 0 < scale_y m"
    using inst h3 by blast
  from h1 bins tick run show ?thesis by simp
qed

text \<open>
  C5 as stated fails on the morph-target driver: with \<open>isPlaying\<close> true and no analyser,
  its frame leaves the mouth weight where it was (here 1/2), where the claim asks for
  lerp(1/2, 0, 0.2) = 2/5.
\<close>

theorem MMD_mouth_frozen_without_analyser:
  "useFrame_MMD (Some \<lparr>morphTargetInfluences = Some [1/2]\<rparr>) (Some 0)
     \<lparr>isPlaying = True, analyser = None\<rparr> =
   Inr (Some \<lparr>morphTargetInfluences = Some [1/2]\<rparr>) \<and>
   lerp (1/2) 0 0.2 = 2/5 \<and> (2/5 :: real) \<noteq> 1/2"
  by (simp add: useFrame_MMD_def lerp_def)

text \<open>
  C5, amended. In the rig driver, every frame in which \<open>isPlaying\<close> is false or the
  analyser is missing advances the mouth weight \<open>aa\<close> by lerp(aa, 0, 0.2) (the rig having an
  expression manager); in the morph-target driver every frame in which \<open>isPlaying\<close> is
  false does so for the mouth morph influence (the mesh having influences that reach the
  morph index). So after any run of such frames the weight is the start value after that
  many lerp steps toward 0, and for a start value in [0,1] and at least 21 frames it is
  below 0.01.
\<close>

theorem mouth_decays_when_silent:
  "((\<forall>f \<in> set fs. \<not> (isPlaying (frame_audioState f) \<and> analyser (frame_audioState f) \<noteq> None)) \<and>
     expressionManager v = Some m \<longrightarrow>
      (\<exists>h' m'. runFrames_VRM (Some v) fs =
                  Inr (Some \<lparr>humanoid = h', expressionManager = Some m'\<rparr>) \<and>
                m' ''aa'' = lerpTicks (length fs) (m ''aa'') 0 0.2 \<and>
                (0 \<le> m ''aa'' \<and> m ''aa'' \<le> 1 \<and> 21 \<le> length fs \<longrightarrow> m' ''aa'' < 0.01))) \<and>
   ((\<forall>a \<in> set as. \<not> isPlaying a) \<and> morphTargetInfluences ms = Some infl \<and> i < length infl \<longrightarrow>
      (\<exists>infl'. runFrames_MMD (Some ms) (Some i) as =
                  Inr (Some (ms\<lparr>morphTargetInfluences := Some infl'\<rparr>)) \<and>
                infl' ! i = lerpTicks (length as) (infl ! i) 0 0.2 \<and>
                (0 \<le> infl ! i \<and> infl ! i \<le> 1 \<and> 21 \<le> length as \<longrightarrow> infl' ! i < 0.01)))"
proof (intro conjI impI)
  assume h: "(\<forall>f \<in> set fs. \<not> (isPlaying (frame_audioState f) \<and> analyser (frame_audioState f) \<noteq> None)) \<and>
     expressionManager v = Some m"
  then obtain h' m' where r: "runFrames_VRM (Some v) fs =
                  Inr (Some \<lparr>humanoid = h', expressionManager = Some m'\<rparr>)"
      "m' ''aa'' = lerpTicks (length fs) (m ''aa'') 0 0.2"
    using runFrames_VRM_silent [of fs v m] by blast
  have "0 \<le> m ''aa'' \<and> m ''aa'' \<le> 1 \<and> 21 \<le> length fs \<longrightarrow> m' ''aa'' < 0.01"
    using r(2) decay_below_one_percent [of "m ''aa''" "length fs"] by simp
  with r show "\<exists>h' m'. runFrames_VRM (Some v) fs =
                  Inr (Some \<lparr>humanoid = h', expressionManager = Some m'\<rparr>) \<and>
                m' ''aa'' = lerpTicks (length fs) (m ''aa'') 0 0.2 \<and>
                (0 \<le> m ''aa'' \<and> m ''aa'' \<le> 1 \<and> 21 \<le> length fs \<longrightarrow> m' ''aa'' < 0.01)"
    by blast
next
  assume h: "(\<forall>a \<in> set as. \<not> isPlaying a) \<and> morphTargetInfluences ms = Some infl \<and> i < length infl"
  then obtain infl' where r: "runFrames_MMD (Some ms) (Some i) as =
                  Inr (Some (ms\<lparr>morphTargetInfluences := Some infl'\<rparr>))"
      "infl' ! i = lerpTicks (length as) (infl ! i) 0 0.2"
    using runFrames_MMD_silent [of as ms infl i] by blast
  have "0 \<le> infl ! i \<and> infl ! i \<le> 1 \<and> 21 \<le> length as \<longrightarrow> infl' ! i < 0.01"
    using r(2) decay_below_one_percent [of "infl ! i" "length as"] by simp
  with r show "\<exists>infl'. runFrames_MMD (Some ms) (Some i) as =
                  Inr (Some (ms\<lparr>morphTargetInfluences := Some infl'\<rparr>)) \<and>
                infl' ! i = lerpTicks (length as) (infl ! i) 0 0.2 \<and>
                (0 \<le> infl ! i \<and> infl ! i \<le> 1 \<and> 21 \<le> length as \<longrightarrow> infl' ! i < 0.01)"
    by blast
qed

theorem mouth_decays_when_silent_witness:
  "\<not> (isPlaying \<lparr>isPlaying = True, analyser = None\<rparr> \<and>
      analyser \<lparr>isPlaying = True, analyser = None\<rparr> \<noteq> None) \<and>
   \<not> isPlaying \<lparr>isPlaying = False, analyser = None\<rparr> \<and>
   (\<exists>h' m'. runFrames_VRM
        (Some \<lparr>humanoid = Map.empty, expressionManager = Some (\<lambda>n. 1)\<rparr>)
        (replicate 21 \<lparr>frame_avatarState = speaking,
                       frame_audioState = \<lparr>isPlaying = True, analyser = None\<rparr>,
                       frame_elapsedTime = 0, frame_random = 0\<rparr>) =
          Inr (Some \<lparr>humanoid = h', expressionManager = Some m'\<rparr>) \<and>
        m' ''aa'' < 0.01) \<and>
   (\<exists>infl'. runFrames_MMD (Some \<lparr>morphTargetInfluences = Some [1]\<rparr>) (Some 0)
        (replicate 21 \<lparr>isPlaying = False, analyser = None\<rparr>) =
          Inr (Some \<lparr>morphTargetInfluences = Some infl'\<rparr>) \<and>
        infl' ! 0 < 0.01)"
  using mouth_decays_when_silent
    [of "replicate 21 \<lparr>frame_avatarState = speaking,
                       frame_audioState = \<lparr>isPlaying = True, analyser = None\<rparr>,
                       frame_elapsedTime = 0, frame_random = 0\<rparr>"
      "\<lparr>humanoid = Map.empty, expressionManager = Some (\<lambda>n. 1)\<rparr>" "\<lambda>n. 1"
      "replicate 21 \<lparr>isPlaying = False, analyser = None\<rparr>"
      "\<lparr>morphTargetInfluences = Some [1]\<rparr>" "[1]" 0]
  by simp blast

text \<open>
  C6. For every combination of the three input booleans (audio is playing, request in
  flight, user is typing) the derived state is speaking exactly when audio is playing,
  thinking (awaiting the response) exactly when audio is not playing and a request is in
  flight, typing exactly when neither holds and the user is typing, and idle exactly when
  none of the three holds: precedence speaking, thinking, typing, idle.
\<close>

theorem getAvatarState_precedence:
  "(getAvatarState a isProcessing isUserTyping = speaking \<longleftrightarrow> isPlaying a) \<and>
   (getAvatarState a isProcessing isUserTyping = thinking \<longleftrightarrow> \<not> isPlaying a \<and> isProcessing) \<and>
   (getAvatarState a isProcessing isUserTyping = typing \<longleftrightarrow>
      \<not> isPlaying a \<and> \<not> isProcessing \<and> isUserTyping) \<and>
   (getAvatarState a isProcessing isUserTyping = idle \<longleftrightarrow>
      \<not> isPlaying a \<and> \<not> isProcessing \<and> \<not> isUserTyping)"
  by (simp add: getAvatarState_def)

text \<open>
  C7. In every frame in which audio is not playing, and the rig has an expression
  manager, the frame reads one sample of \<open>Math.random()\<close>; when the sample exceeds 0.992
  the blink weight is set to 1, otherwise it becomes lerp(blink, 0, 0.2). The result
  depends on this frame's sample and the current blink weight only: the driver keeps no
  timer and no earlier sample.
\<close>

theorem blink_process:
  assumes "\<not> isPlaying a" "expressionManager v = Some m"
  shows "\<exists>h' m'. useFrame_VRM (Some v) st a t rnd =
                    Inr (Some \<lparr>humanoid = h', expressionManager = Some m'\<rparr>) \<and>
                 m' ''blink'' = (if rnd > 0.992 then 1 else lerp (m ''blink'') 0 0.2)"
proof -
  have "lipSync a rnd (expressionManager v) =
         Inr (Some (m(''aa'' := lerp (m ''aa'') 0 0.2,
                      ''blink'' := (if rnd > 0.992 then 1 else lerp (m ''blink'') 0 0.2))))"
    using assms by (simp add: lipSync_silent)
  from useFrame_VRM_result [OF this, of st t] show ?thesis by auto
qed

theorem blink_process_witness:
  "\<not> isPlaying \<lparr>isPlaying = False, analyser = None\<rparr> \<and>
   expressionManager \<lparr>humanoid = Map.empty, expressionManager = Some (\<lambda>n. 1/2)\<rparr> =
     Some (\<lambda>n. 1/2) \<and>
   (\<exists>h' m'. useFrame_VRM
        (Some \<lparr>humanoid = Map.empty, expressionManager = Some (\<lambda>n. 1/2)\<rparr>)
        idle \<lparr>isPlaying = False, analyser = None\<rparr> 0 (995/1000) =
          Inr (Some \<lparr>humanoid = h', expressionManager = Some m'\<rparr>) \<and>
        m' ''blink'' = 1) \<and>
   (\<exists>h' m'. useFrame_VRM
        (Some \<lparr>humanoid = Map.empty, expressionManager = Some (\<lambda>n. 1/2)\<rparr>)
        idle \<lparr>isPlaying = False, analyser = None\<rparr> 0 (1/2) =
          Inr (Some \<lparr>humanoid = h', expressionManager = Some m'\<rparr>) \<and>
        m' ''blink'' = 2/5)"
  using blink_process [of "\<lparr>isPlaying = False, analyser = None\<rparr>"
      "\<lparr>humanoid = Map.empty, expressionManager = Some (\<lambda>n. 1/2)\<rparr>" "\<lambda>n. 1/2" idle 0 "995/1000"]
    blink_process [of "\<lparr>isPlaying = False, analyser = None\<rparr>"
      "\<lparr>humanoid = Map.empty, expressionManager = Some (\<lambda>n. 1/2)\<rparr>" "\<lambda>n. 1/2" idle 0 "1/2"]
  by (simp add: lerp_def)

text \<open>
  C8. For a joint of the rig and a smoothing factor in (0,1], \<open>n\<close> calls of \<open>rotateBone\<close>
  with one target apply the update current' = current + (target - current) * factor
  \<open>n\<close> times to each axis. Each tick multiplies the distance to the target by
  (1 - factor), which lies in [0,1); so the distance never grows, shrinks strictly while
  it is not 0, the value never crosses the target (no oscillation), and the distance
  tends to 0.
\<close>

theorem lerp_converges_monotonically:
  assumes "0 < f" "f \<le> 1" "getRawBoneNode h b = Some r"
  shows "rotateBoneTicks n h b x y z f =
           Inr (h(b \<mapsto> \<lparr>rotation_x = lerpTicks n (rotation_x r) x f,
                         rotation_y = lerpTicks n (rotation_y r) y f,
                         rotation_z = lerpTicks n (rotation_z r) z f\<rparr>)) \<and>
         lerp c t f = c + (t - c) * f \<and>
         \<bar>lerp c t f - t\<bar> = (1 - f) * \<bar>c - t\<bar> \<and> 0 \<le> 1 - f \<and> 1 - f < 1 \<and>
         \<bar>lerpTicks (Suc k) c t f - t\<bar> \<le> \<bar>lerpTicks k c t f - t\<bar> \<and>
         (lerpTicks k c t f \<noteq> t \<longrightarrow>
            \<bar>lerpTicks (Suc k) c t f - t\<bar> < \<bar>lerpTicks k c t f - t\<bar>) \<and>
         0 \<le> (lerpTicks k c t f - t) * (c - t) \<and>
         (\<lambda>k. \<bar>lerpTicks k c t f - t\<bar>) \<longlonglongrightarrow> 0"
  using assms rotateBoneTicks_present [OF assms(3)] lerp_abs_dist [of f c t]
    lerpTicks_mono [of f k c t] lerpTicks_strict [of f k c t] lerpTicks_same_side [of f k c t]
    lerpTicks_tendsto [of f c t]
  by (simp add: lerp_def)

theorem lerp_converges_monotonically_witness:
  "(0::real) < 1/2 \<and> (1/2::real) \<le> 1 \<and>
   getRawBoneNode [Head \<mapsto> \<lparr>rotation_x = 0, rotation_y = 0, rotation_z = 0\<rparr>] Head =
     Some \<lparr>rotation_x = 0, rotation_y = 0, rotation_z = 0\<rparr> \<and>
   rotateBoneTicks 2 [Head \<mapsto> \<lparr>rotation_x = 0, rotation_y = 0, rotation_z = 0\<rparr>] Head 1 1 1 (1/2) =
     Inr [Head \<mapsto> \<lparr>rotation_x = 3/4, rotation_y = 3/4, rotation_z = 3/4\<rparr>] \<and>
   \<bar>lerpTicks 3 0 1 (1/2) - 1\<bar> < \<bar>lerpTicks 2 0 1 (1/2) - 1\<bar>"
  using lerp_converges_monotonically [of "1/2"
      "[Head \<mapsto> \<lparr>rotation_x = 0, rotation_y = 0, rotation_z = 0\<rparr>]" Head
      "\<lparr>rotation_x = 0, rotation_y = 0, rotation_z = 0\<rparr>" 2 1 1 1 0 1 2]
  by (simp add: getRawBoneNode_def lerp_def numeral_3_eq_3 numeral_2_eq_2)

text \<open>
  C9. A call of \<open>rotateBone\<close> for a joint the rig lacks returns the rig as it was and
  throws nothing; the whole pose controller, in every state and at every time, throws
  nothing and leaves every absent joint absent. Without an expression manager the
  lip-sync part writes nothing and throws nothing, whatever the audio state, and so the
  whole frame returns a rig that still has no expression manager. Before the rig is loaded
  the frame does nothing.
\<close>

theorem missing_parts_are_skipped:
  "(getRawBoneNode h b = None \<longrightarrow> rotateBone h b x y z f = Inr h) \<and>
   (\<exists>h'. rotateBones h (poseTargets st t) = Inr h' \<and>
      (\<forall>j. getRawBoneNode h j = None \<longrightarrow> getRawBoneNode h' j = None)) \<and>
   lipSync a rnd None = Inr None \<and>
   (expressionManager v = None \<longrightarrow>
      (\<exists>h'. useFrame_VRM (Some v) st a t rnd =
               Inr (Some \<lparr>humanoid = h', expressionManager = None\<rparr>) \<and>
         (\<forall>j. getRawBoneNode (humanoid v) j = None \<longrightarrow> getRawBoneNode h' j = None))) \<and>
   useFrame_VRM None st a t rnd = Inr None"
proof -
  have 1: "getRawBoneNode h b = None \<longrightarrow> rotateBone h b x y z f = Inr h"
    by (simp add: rotateBone_absent)
  have 2: "\<exists>h'. rotateBones h (poseTargets st t) = Inr h' \<and>
      (\<forall>j. getRawBoneNode h j = None \<longrightarrow> getRawBoneNode h' j = None)"
    using rotateBones_total [of h "poseTargets st t"] dom_absent by blast
  have 3: "lipSync a rnd None = Inr None" by (rule lipSync_no_manager)
  have 4: "expressionManager v = None \<longrightarrow>
      (\<exists>h'. useFrame_VRM (Some v) st a t rnd =
               Inr (Some \<lparr>humanoid = h', expressionManager = None\<rparr>) \<and>
         (\<forall>j. getRawBoneNode (humanoid v) j = None \<longrightarrow> getRawBoneNode h' j = None))"
  proof
    assume n: "expressionManager v = None"
    then have "lipSync a rnd (expressionManager v) = Inr None" by (simp add: lipSync_no_manager)
    from useFrame_VRM_result [OF this, of st t] dom_absent show
      "\<exists>h'. useFrame_VRM (Some v) st a t rnd =
               Inr (Some \<lparr>humanoid = h', expressionManager = None\<rparr>) \<and>
         (\<forall>j. getRawBoneNode (humanoid v) j = None \<longrightarrow> getRawBoneNode h' j = None)"
      by blast
  qed
  have 5: "useFrame_VRM None st a t rnd = Inr None" by (simp add: useFrame_VRM_def)
  from 1 2 3 4 5 show ?thesis by blast
qed

theorem missing_parts_are_skipped_witness:
  "getRawBoneNode [Head \<mapsto> \<lparr>rotation_x = 0, rotation_y = 0, rotation_z = 0\<rparr>] Neck = None \<and>
   rotateBone [Head \<mapsto> \<lparr>rotation_x = 0, rotation_y = 0, rotation_z = 0\<rparr>] Neck 0.2 0 0 0.1 =
     Inr [Head \<mapsto> \<lparr>rotation_x = 0, rotation_y = 0, rotation_z = 0\<rparr>] \<and>
   expressionManager
     \<lparr>humanoid = [Head \<mapsto> \<lparr>rotation_x = 0, rotation_y = 0, rotation_z = 0\<rparr>],
      expressionManager = None\<rparr> = None \<and>
   useFrame_VRM
     (Some \<lparr>humanoid = [Head \<mapsto> \<lparr>rotation_x = 0, rotation_y = 0, rotation_z = 0\<rparr>],
            expressionManager = None\<rparr>)
     typing \<lparr>isPlaying = False, analyser = None\<rparr> 0 0 =
   Inr (Some \<lparr>humanoid = [Head \<mapsto> \<lparr>rotation_x = 3/100, rotation_y = 0, rotation_z = 0\<rparr>],
               expressionManager = None\<rparr>)"
  using missing_parts_are_skipped
    [of "[Head \<mapsto> \<lparr>rotation_x = 0, rotation_y = 0, rotation_z = 0\<rparr>]" Neck "0.2" 0 0 "0.1"
      typing 0 "\<lparr>isPlaying = False, analyser = None\<rparr>" 0
      "\<lparr>humanoid = [Head \<mapsto> \<lparr>rotation_x = 0, rotation_y = 0, rotation_z = 0\<rparr>],
        expressionManager = None\<rparr>"]
    typing_frame_partial_rig
  by (simp add: getRawBoneNode_def)

text \<open>
  C10. A tick of the fallback shape driver keeps scaleX and scaleZ equal: whenever they
  are equal before the tick (as at the initial scale 1) they are equal in any state the
  tick returns, both being advanced toward the same 1/sqrt(new scaleY) with the same
  factor 0.2; and the tick does return when scaleY > 0 before it (and the analyser, if
  any, has at least 30 bins). Without a mesh the tick changes nothing.
\<close>

theorem Default_horizontal_scales_stay_equal:
  assumes "scale_x mesh = scale_z mesh"
  shows "(useFrame_Default newColor (Some mesh) mat a t = Inr (Some mesh', mat') \<longrightarrow>
            scale_x mesh' = scale_z mesh' \<and>
            scale_x mesh' = lerp (scale_x mesh) (1 / sqrt (scale_y mesh')) 0.2 \<and>
            scale_z mesh' = lerp (scale_z mesh) (1 / sqrt (scale_y mesh')) 0.2) \<and>
         (0 < scale_y mesh \<and> (\<forall>an. analyser a = Some an \<longrightarrow> 30 \<le> frequencyBinCount an) \<longrightarrow>
            (\<exists>m' mat'. useFrame_Default newColor (Some mesh) mat a t = Inr (Some m', mat') \<and>
               scale_x m' = scale_z m')) \<and>
         useFrame_Default newColor None mat a t = Inr (None, mat)"
proof (intro conjI impI)
  assume r: "useFrame_Default newColor (Some mesh) mat a t = Inr (Some mesh', mat')"
  from useFrame_Default_scales [OF r] assms
  show "scale_x mesh' = scale_z mesh'"
    and "scale_x mesh' = lerp (scale_x mesh) (1 / sqrt (scale_y mesh')) 0.2"
    and "scale_z mesh' = lerp (scale_z mesh) (1 / sqrt (scale_y mesh')) 0.2"
    by simp_all
next
  assume h: "0 < scale_y mesh \<and> (\<forall>an. analyser a = Some an \<longrightarrow> 30 \<le> frequencyBinCount an)"
  then obtain m' mat' where r:
      "useFrame_Default newColor (Some mesh) mat a t = Inr (Some m', mat')"
      "scale_x m' = lerp (scale_x mesh) (1 / sqrt (scale_y m')) 0.2"
      "scale_z m' = lerp (scale_z mesh) (1 / sqrt (scale_y m')) 0.2"
    using useFrame_Default_result [of mesh a newColor mat t] by blast
  then have "scale_x m' = scale_z m'" using assms by simp
  with r(1) show "\<exists>m' mat'. useFrame_Default newColor (Some mesh) mat a t = Inr (Some m', mat') \<and>
               scale_x m' = scale_z m'" by blast
next
  show "useFrame_Default newColor None mat a t = Inr (None, mat)"
    by (simp add: useFrame_Default_def)
qed

theorem Default_horizontal_scales_stay_equal_witness:
  "scale_x \<lparr>scale_x = 1, scale_y = 1, scale_z = 1, position_y = 0, mesh_rotation_y = 0\<rparr> =
   scale_z \<lparr>scale_x = 1, scale_y = 1, scale_z = 1, position_y = 0, mesh_rotation_y = 0\<rparr> \<and>
   (\<exists>m' mat'. useFrame_Default (\<lambda>hex. \<lparr>color_r = 0, color_g = 0, color_b = 0\<rparr>)
       (Some \<lparr>scale_x = 1, scale_y = 1, scale_z = 1, position_y = 0, mesh_rotation_y = 0\<rparr>)
       None \<lparr>isPlaying = True, analyser = Some (initAudioContext (\<lambda>k. 200))\<rparr> 0 =
         Inr (Some m', mat') \<and>
      scale_x m' = scale_z m')"
  using Default_horizontal_scales_stay_equal
    [of "\<lparr>scale_x = 1, scale_y = 1, scale_z = 1, position_y = 0, mesh_rotation_y = 0\<rparr>"
        "\<lambda>hex. \<lparr>color_r = 0, color_g = 0, color_b = 0\<rparr>" None
        "\<lparr>isPlaying = True, analyser = Some (initAudioContext (\<lambda>k. 200))\<rparr>" 0]
    initAudioContext_bins [of "\<lambda>k. 200"]
  by simp

end
